theory Spec2Isabelle
  imports Complex_Main "HOL-Library.AList"
begin

section \<open>Python strings\<close>

text \<open>
  A Python \<^verbatim>\<open>str\<close> is modelled as a \<^typ>\<open>string\<close> whose characters are the code
  points below 256. The operations below are the methods of \<^verbatim>\<open>str\<close> that the
  analyzers call, each with the behaviour of the Python method on such strings.
\<close>

text \<open>The characters for which \<^verbatim>\<open>str.isspace\<close> holds.\<close>

definition is_space :: "char \<Rightarrow> bool" where
  "is_space c \<longleftrightarrow> c \<in> set [CHR 0x09, CHR 0x0A, CHR 0x0B, CHR 0x0C, CHR 0x0D,
      CHR 0x1C, CHR 0x1D, CHR 0x1E, CHR 0x1F, CHR 0x20, CHR 0x85, CHR 0xA0]"

text \<open>\<^verbatim>\<open>s.lstrip()\<close>, \<^verbatim>\<open>s.rstrip()\<close>, \<^verbatim>\<open>s.strip()\<close>.\<close>

definition str_lstrip :: "string \<Rightarrow> string" where
  "str_lstrip s = dropWhile is_space s"

definition str_rstrip :: "string \<Rightarrow> string" where
  "str_rstrip s = rev (dropWhile is_space (rev s))"

definition str_strip :: "string \<Rightarrow> string" where
  "str_strip s = str_rstrip (str_lstrip s)"

text \<open>
  \<^verbatim>\<open>s.lstrip(chars)\<close> and \<^verbatim>\<open>s.strip(chars)\<close>: the argument is a set of characters,
  every leading (and trailing) character in the set is removed.
\<close>

definition lstrip_chars :: "string \<Rightarrow> string \<Rightarrow> string" where
  "lstrip_chars s chars = dropWhile (\<lambda>c. c \<in> set chars) s"

definition strip_chars :: "string \<Rightarrow> string \<Rightarrow> string" where
  "strip_chars s chars = rev (dropWhile (\<lambda>c. c \<in> set chars) (rev (lstrip_chars s chars)))"

text \<open>\<^verbatim>\<open>s.startswith(p)\<close>.\<close>

definition startswith :: "string \<Rightarrow> string \<Rightarrow> bool" where
  "startswith s p \<longleftrightarrow> take (length p) s = p"

text \<open>\<^verbatim>\<open>sub in s\<close>: \<^verbatim>\<open>sub\<close> occurs in \<^verbatim>\<open>s\<close> as a contiguous substring.\<close>

fun str_contains :: "string \<Rightarrow> string \<Rightarrow> bool" where
  "str_contains [] sub \<longleftrightarrow> sub = []"
| "str_contains (c # cs) sub \<longleftrightarrow> startswith (c # cs) sub \<or> str_contains cs sub"

text \<open>
  \<^verbatim>\<open>s.split(sep)\<close> for a non-empty separator: the pieces between the non-overlapping
  occurrences of \<^verbatim>\<open>sep\<close>, found from the left; always at least one piece. (Python
  raises ValueError on an empty separator; the analyzers only pass literals, and an
  empty separator here splits nowhere.)
\<close>

function split_sep :: "string \<Rightarrow> string \<Rightarrow> string list" where
  "split_sep [] sep = [[]]"
| "split_sep (c # cs) sep =
     (if sep \<noteq> [] \<and> startswith (c # cs) sep
      then [] # split_sep (drop (length sep) (c # cs)) sep
      else (case split_sep cs sep of
              [] \<Rightarrow> [[c]]
            | w # ws \<Rightarrow> (c # w) # ws))"
  by pat_completeness auto
termination
  by (relation "measure (\<lambda>(s, sep). length s)") (auto simp add: neq_Nil_conv)

text \<open>
  \<^verbatim>\<open>s.split()\<close>: the maximal runs of non-whitespace characters. The first argument is
  the word read so far.
\<close>

fun split_ws_from :: "string \<Rightarrow> string \<Rightarrow> string list" where
  "split_ws_from w [] = (if w = [] then [] else [w])"
| "split_ws_from w (c # cs) =
     (if is_space c
      then (if w = [] then split_ws_from [] cs else w # split_ws_from [] cs)
      else split_ws_from (w @ [c]) cs)"

definition split_ws :: "string \<Rightarrow> string list" where
  "split_ws s = split_ws_from [] s"

text \<open>
  \<^verbatim>\<open>s.replace(old, new)\<close>: every non-overlapping occurrence of \<^verbatim>\<open>old\<close>, from the left,
  is replaced by \<^verbatim>\<open>new\<close>. For an empty \<^verbatim>\<open>old\<close> Python puts \<^verbatim>\<open>new\<close> before every
  character and at the end.
\<close>

function replace_from :: "string \<Rightarrow> string \<Rightarrow> string \<Rightarrow> string" where
  "replace_from [] old new = []"
| "replace_from (c # cs) old new =
     (if old \<noteq> [] \<and> startswith (c # cs) old
      then new @ replace_from (drop (length old) (c # cs)) old new
      else c # replace_from cs old new)"
  by pat_completeness auto
termination
  by (relation "measure (\<lambda>(s, old, new). length s)") (auto simp add: neq_Nil_conv)

definition str_replace :: "string \<Rightarrow> string \<Rightarrow> string \<Rightarrow> string" where
  "str_replace s old new =
     (if old = [] then new @ concat (map (\<lambda>c. c # new) s) else replace_from s old new)"

text \<open>
  \<^verbatim>\<open>s.lower()\<close> on code points below 256: the letters A to Z and the upper-case
  letters of Latin-1 (0xC0 to 0xDE without the multiplication sign 0xD7) move up by 32.
\<close>

definition lower_char :: "char \<Rightarrow> char" where
  "lower_char c =
     (let n = (of_char c :: nat)
      in if (65 \<le> n \<and> n \<le> 90) \<or> (192 \<le> n \<and> n \<le> 222 \<and> n \<noteq> 215)
         then char_of (n + 32) else c)"

definition str_lower :: "string \<Rightarrow> string" where
  "str_lower s = map lower_char s"

text \<open>\<^verbatim>\<open>xs[i]\<close> on a list, for an index from 0: IndexError is \<^const>\<open>None\<close>.\<close>

definition index_opt :: "'a list \<Rightarrow> nat \<Rightarrow> 'a option" where
  "index_opt xs i = (if i < length xs then Some (xs ! i) else None)"

section \<open>AST analyzer\<close>

text \<open>
  Source: \<^verbatim>\<open>src/onboarding_agent/analyzers/ast_analyzer.py\<close>. The fields of the two
  dataclasses carry a prefix, since two records of one theory cannot share a field name.
\<close>

record CodeSymbol =
  sym_name :: string
  sym_type :: string
  sym_file_path :: string
  sym_line_start :: int
  sym_line_end :: int
  sym_docstring :: "string option"
  sym_complexity :: int
  sym_is_public :: bool

record FileAnalysis =
  fa_file_path :: string
  fa_language :: string
  fa_symbols :: "CodeSymbol list"
  fa_imports :: "string list"
  fa_total_lines :: int
  fa_code_lines :: int

text \<open>
  The constructor call \<^verbatim>\<open>CodeSymbol(name=..., type=..., file_path=..., line_start=i + 1,
  line_end=i + 1, is_public=...)\<close> of the extractors: the docstring and the complexity
  keep their defaults.
\<close>

definition mk_symbol :: "string \<Rightarrow> string \<Rightarrow> string \<Rightarrow> nat \<Rightarrow> bool \<Rightarrow> CodeSymbol" where
  "mk_symbol n t file_path i pub =
     \<lparr>sym_name = n, sym_type = t, sym_file_path = file_path,
      sym_line_start = int i + 1, sym_line_end = int i + 1,
      sym_docstring = None, sym_complexity = 0, sym_is_public = pub\<rparr>"

definition LANGUAGE_MAP :: "string \<Rightarrow> string option" where
  "LANGUAGE_MAP = map_of
     [(''.py'', ''python''), (''.js'', ''javascript''), (''.ts'', ''typescript''),
      (''.jsx'', ''javascript''), (''.tsx'', ''typescript''), (''.java'', ''java''),
      (''.go'', ''go''), (''.rs'', ''rust''), (''.c'', ''c''), (''.cpp'', ''cpp''),
      (''.h'', ''c''), (''.hpp'', ''cpp'')]"

text \<open>
  The body of the loop of \<^verbatim>\<open>_extract_python_symbols\<close> for line \<^verbatim>\<open>i\<close> (from 0): the
  symbol the line adds, if any. The name of a function is the text before the first
  parenthesis, without every occurrence of \<^verbatim>\<open>def \<close>, stripped.
\<close>

definition python_def_name :: "string \<Rightarrow> string" where
  "python_def_name stripped =
     str_strip (str_replace (hd (split_sep stripped ''('')) ''def '' '''')"

definition python_class_name :: "string \<Rightarrow> string" where
  "python_class_name stripped =
     str_strip (str_replace (str_replace (hd (split_sep stripped ''('')) ''class '' '''') '':'' '''')"

definition python_symbol_of_line :: "nat \<Rightarrow> string \<Rightarrow> string \<Rightarrow> CodeSymbol option" where
  "python_symbol_of_line i line file_path =
     (let stripped = str_strip line in
      if startswith stripped ''class '' then
        (let n = python_class_name stripped;
             is_public = \<not> startswith n ''_''
         in Some (mk_symbol n ''class'' file_path i is_public))
      else if startswith stripped ''def '' then
        (let n = python_def_name stripped;
             is_public = \<not> startswith n ''_'';
             symbol_type = (if startswith line ''    '' \<or> startswith line [CHR 0x09]
                            then ''method'' else ''function'')
         in Some (mk_symbol n symbol_type file_path i is_public))
      else None)"

fun extract_python_symbols_from :: "nat \<Rightarrow> string list \<Rightarrow> string \<Rightarrow> CodeSymbol list" where
  "extract_python_symbols_from i [] file_path = []"
| "extract_python_symbols_from i (line # rest) file_path =
     (case python_symbol_of_line i line file_path of
        None \<Rightarrow> extract_python_symbols_from (Suc i) rest file_path
      | Some symbol \<Rightarrow> symbol # extract_python_symbols_from (Suc i) rest file_path)"

definition extract_python_symbols :: "string list \<Rightarrow> string \<Rightarrow> CodeSymbol list" where
  "extract_python_symbols lines file_path = extract_python_symbols_from 0 lines file_path"

text \<open>
  The body of the loop of \<^verbatim>\<open>_extract_js_symbols\<close>. An index that raises IndexError
  inside a \<^verbatim>\<open>try\<close> block adds nothing, as the \<^verbatim>\<open>except IndexError: pass\<close> does.
\<close>

definition js_symbol_of_line :: "nat \<Rightarrow> string \<Rightarrow> string \<Rightarrow> CodeSymbol option" where
  "js_symbol_of_line i line file_path =
     (let stripped = str_strip line in
      if startswith stripped ''class '' then
        (let n = str_strip (str_replace (str_replace (hd (split_sep stripped ''{'')) ''class '' '''') ''extends'' '''')
         in Some (mk_symbol n ''class'' file_path i True))
      else if str_contains stripped ''function '' then
        (case index_opt (split_sep stripped ''function '') 1 of
           None \<Rightarrow> None
         | Some after \<Rightarrow>
             (let n = str_strip (hd (split_sep after ''(''))
              in if n \<noteq> [] then Some (mk_symbol n ''function'' file_path i True) else None))
      else if str_contains stripped ''const '' \<or> str_contains stripped ''let '' then
        (if str_contains stripped ''=>'' then
           (case index_opt (split_sep stripped
                    (if str_contains stripped ''const '' then ''const '' else ''let '')) 1 of
              None \<Rightarrow> None
            | Some after \<Rightarrow>
                Some (mk_symbol (str_strip (hd (split_sep after ''=''))) ''function'' file_path i True))
         else None)
      else None)"

fun extract_js_symbols_from :: "nat \<Rightarrow> string list \<Rightarrow> string \<Rightarrow> CodeSymbol list" where
  "extract_js_symbols_from i [] file_path = []"
| "extract_js_symbols_from i (line # rest) file_path =
     (case js_symbol_of_line i line file_path of
        None \<Rightarrow> extract_js_symbols_from (Suc i) rest file_path
      | Some symbol \<Rightarrow> symbol # extract_js_symbols_from (Suc i) rest file_path)"

definition extract_js_symbols :: "string list \<Rightarrow> string \<Rightarrow> CodeSymbol list" where
  "extract_js_symbols lines file_path = extract_js_symbols_from 0 lines file_path"

text \<open>\<^verbatim>\<open>_extract_symbols_simple\<close>: the lines of the content, by language.\<close>

definition extract_symbols_simple :: "string \<Rightarrow> string \<Rightarrow> string \<Rightarrow> CodeSymbol list" where
  "extract_symbols_simple content language file_path =
     (let lines = split_sep content [CHR 0x0A] in
      if language = ''python'' then extract_python_symbols lines file_path
      else if language \<in> set [''javascript'', ''typescript''] then extract_js_symbols lines file_path
      else [])"

text \<open>\<^verbatim>\<open>_extract_imports_simple\<close>: the module each import line names.\<close>

definition python_import_of_line :: "string \<Rightarrow> string option" where
  "python_import_of_line line =
     (let stripped = str_strip line in
      if startswith stripped ''import '' then
        Some (str_strip (hd (split_sep (hd (split_sep (str_replace stripped ''import '' '''') '' as '')) '','')))
      else if startswith stripped ''from '' then
        (case index_opt (split_sep stripped ''from '') 1 of
           None \<Rightarrow> None
         | Some after \<Rightarrow> Some (str_strip (hd (split_sep after '' import''))))
      else None)"

definition js_import_of_line :: "string \<Rightarrow> string option" where
  "js_import_of_line line =
     (let stripped = str_strip line in
      if startswith stripped ''import '' then
        (if str_contains stripped ''from '' then
           (case index_opt (split_sep stripped ''from '') 1 of
              None \<Rightarrow> None
            | Some after \<Rightarrow> Some (strip_chars (str_strip after) [CHR '';'', CHR 0x22, CHR 0x27]))
         else None)
      else None)"

definition extract_imports_simple :: "string \<Rightarrow> string \<Rightarrow> string list" where
  "extract_imports_simple content language =
     (let lines = split_sep content [CHR 0x0A] in
      if language = ''python'' then List.map_filter python_import_of_line lines
      else if language \<in> set [''javascript'', ''typescript''] then List.map_filter js_import_of_line lines
      else [])"

text \<open>
  \<^verbatim>\<open>Path(file_path).suffix\<close>: the last component of the path from its last dot on,
  unless that dot is its first or its last character.
\<close>

definition path_name :: "string \<Rightarrow> string" where
  "path_name p = rev (takeWhile (\<lambda>c. c \<noteq> CHR ''/'') (rev p))"

definition path_suffix :: "string \<Rightarrow> string" where
  "path_suffix p =
     (let n = path_name p;
          ext = rev (takeWhile (\<lambda>c. c \<noteq> CHR ''.'') (rev n))
      in if CHR ''.'' \<in> set n \<and> ext \<noteq> [] \<and> length ext + 1 < length n
         then CHR ''.'' # ext else [])"

text \<open>
  What \<^verbatim>\<open>analyze_file\<close> finds at a path: nothing, a file whose content cannot be read
  as UTF-8 text (the \<^verbatim>\<open>open\<close> or the \<^verbatim>\<open>read\<close> raises), or the text of the file.
\<close>

datatype file_state = Missing | Unreadable | Content string

text \<open>
  The predicate of the generator in
  \<^verbatim>\<open>sum(1 for line in lines if line.strip() and not line.strip().startswith("#"))\<close>.
\<close>

definition is_code_line :: "string \<Rightarrow> bool" where
  "is_code_line line \<longleftrightarrow> str_strip line \<noteq> [] \<and> \<not> startswith (str_strip line) ''#''"

text \<open>
  \<^verbatim>\<open>analyze_file(self, file_path) -> Optional[FileAnalysis]\<close>. The path is taken in the
  form \<^verbatim>\<open>str(Path(file_path))\<close> gives it. Every exception of the \<^verbatim>\<open>try\<close> block
  returns None.
\<close>

definition analyze_file :: "(string \<Rightarrow> file_state) \<Rightarrow> string \<Rightarrow> FileAnalysis option" where
  "analyze_file fs file_path =
     (if fs file_path = Missing then None
      else (case LANGUAGE_MAP (path_suffix file_path) of
              None \<Rightarrow> None
            | Some language \<Rightarrow>
                (case fs file_path of
                   Content content \<Rightarrow>
                     (let symbols = extract_symbols_simple content language file_path;
                          imports = extract_imports_simple content language;
                          lines = split_sep content [CHR 0x0A];
                          total_lines = int (length lines);
                          code_lines = (\<Sum>line \<leftarrow> filter is_code_line lines. 1)
                      in Some \<lparr>fa_file_path = file_path, fa_language = language,
                               fa_symbols = symbols, fa_imports = imports,
                               fa_total_lines = total_lines, fa_code_lines = code_lines\<rparr>)
                 | _ \<Rightarrow> None)))"

section \<open>Complexity analyzer\<close>

text \<open>
  Source: \<^verbatim>\<open>src/onboarding_agent/analyzers/complexity_analyzer.py\<close>, class
  \<^verbatim>\<open>ComplexityAnalyzer\<close>. The three class constants are the thresholds of both
  the per-function classification and the per-file risk level.
\<close>

definition SIMPLE :: int where
  "SIMPLE = 5"

definition MODERATE :: int where
  "MODERATE = 10"

definition COMPLEX :: int where
  "COMPLEX = 20"

text \<open>
  \<^verbatim>\<open>_classify_complexity(self, complexity: int) -> str\<close>: an if/elif chain over the
  thresholds, in the order of the source.
\<close>

definition classify_complexity :: "int \<Rightarrow> string" where
  "classify_complexity complexity =
     (if complexity \<le> SIMPLE then ''simple''
      else if complexity \<le> MODERATE then ''moderate''
      else if complexity \<le> COMPLEX then ''complex''
      else ''very_complex'')"

text \<open>
  The ordering of the bands, simple < moderate < complex < very_complex, as a rank.
  A string that is no band has rank 4, above every band, so that a classification
  outside the four bands could not pass for a low one.
\<close>

definition band_rank :: "string \<Rightarrow> nat" where
  "band_rank b =
     (if b = ''simple'' then 0
      else if b = ''moderate'' then 1
      else if b = ''complex'' then 2
      else if b = ''very_complex'' then 3
      else 4)"

text \<open>
  \<^verbatim>\<open>_determine_risk_level(self, avg_complexity: float, mi_index: float) -> str\<close>.
  The two arguments are Python floats that are only compared with the integer
  thresholds; a comparison of a finite float with an integer is exact, so the floats
  are modelled by the real numbers they denote (NaN and the infinities are left out).
\<close>

definition determine_risk_level :: "real \<Rightarrow> real \<Rightarrow> string" where
  "determine_risk_level avg_complexity mi_index =
     (if avg_complexity > real_of_int COMPLEX \<or> mi_index < 10 then ''high''
      else if avg_complexity > real_of_int MODERATE \<or> mi_index < 20 then ''medium''
      else ''low'')"

section \<open>Dependency analyzer\<close>

text \<open>
  Source: \<^verbatim>\<open>src/code_archaeology/analyzers/dependency_analyzer.py\<close>.
\<close>

datatype py_error = ValueError | KeyError | IndexError | FileNotFoundError | OverflowError | OSError

record ModuleInfo =
  mi_path :: string
  mi_imports :: "string list"
  mi_exported_symbols :: "string list"
  mi_is_entry_point :: bool
  mi_dependency_count :: int
  mi_dependent_count :: int

text \<open>
  The \<^verbatim>\<open>networkx.DiGraph\<close> of the analyzer, by the operations the analyzer calls: the
  nodes in the order they were added, each once, and the edges, each ordered pair once.
  \<^verbatim>\<open>add_node\<close> of a present node changes nothing; \<^verbatim>\<open>add_edge(u, v)\<close> adds the nodes
  that are missing, then the edge unless it is present. The out-degree of a node is the
  number of its successors and the in-degree the number of its predecessors; a
  self-loop counts once in each.
\<close>

record DiGraph =
  g_nodes :: "string list"
  g_edges :: "(string \<times> string) list"

definition add_node :: "string \<Rightarrow> DiGraph \<Rightarrow> DiGraph" where
  "add_node n g = (if n \<in> set (g_nodes g) then g else g\<lparr>g_nodes := g_nodes g @ [n]\<rparr>)"

definition add_edge :: "string \<Rightarrow> string \<Rightarrow> DiGraph \<Rightarrow> DiGraph" where
  "add_edge u v g =
     (let g' = add_node v (add_node u g)
      in if (u, v) \<in> set (g_edges g') then g' else g'\<lparr>g_edges := g_edges g' @ [(u, v)]\<rparr>)"

definition out_degree :: "DiGraph \<Rightarrow> string \<Rightarrow> nat" where
  "out_degree g n = length (filter (\<lambda>e. fst e = n) (g_edges g))"

definition in_degree :: "DiGraph \<Rightarrow> string \<Rightarrow> nat" where
  "in_degree g n = length (filter (\<lambda>e. snd e = n) (g_edges g))"

text \<open>
  The state of a \<^verbatim>\<open>DependencyAnalyzer\<close>: its graph and its dictionary of modules, an
  association list in insertion order (\<^const>\<open>AList.update\<close> replaces the value of a
  present key in place and appends a new key, as a Python dict does).
  \<^verbatim>\<open>__init__\<close> raises ValueError when the repository path does not exist and starts
  from the empty graph and the empty dictionary otherwise.
\<close>

record DependencyAnalyzer =
  dependency_graph :: DiGraph
  modules :: "(string \<times> ModuleInfo) list"

definition new_analyzer :: DependencyAnalyzer where
  "new_analyzer = \<lparr>dependency_graph = \<lparr>g_nodes = [], g_edges = []\<rparr>, modules = []\<rparr>"

definition DependencyAnalyzer_init :: "bool \<Rightarrow> py_error + DependencyAnalyzer" where
  "DependencyAnalyzer_init repo_path_exists =
     (if \<not> repo_path_exists then Inl ValueError else Inr new_analyzer)"

text \<open>
  \<^verbatim>\<open>_resolve_import(self, import_path, available_files) -> str\<close>: the candidate paths
  in the order the source appends them, and the first one that is an available file;
  the empty string when there is none.
\<close>

definition potential_paths :: "string \<Rightarrow> string list" where
  "potential_paths import_path =
     (let python_path = str_replace import_path ''.'' ''/'' @ ''.py''
      in [python_path] @
         (if startswith import_path ''./'' \<or> startswith import_path ''../''
          then (let js_path = lstrip_chars import_path ''./'' @ ''.js'';
                    ts_path = lstrip_chars import_path ''./'' @ ''.ts''
                in [js_path, ts_path])
          else []))"

definition resolve_import :: "string \<Rightarrow> string list \<Rightarrow> string" where
  "resolve_import import_path available_files =
     (case find (\<lambda>path. path \<in> set available_files) (potential_paths import_path) of
        Some path \<Rightarrow> path
      | None \<Rightarrow> [])"

text \<open>
  \<^verbatim>\<open>build_dependency_graph(self, file_analyses)\<close>. The dictionary of analyses is the
  list of its items, in order; its values are the \<^typ>\<open>FileAnalysis\<close> objects of the
  AST analyzer, which have the two attributes the source tests with \<^verbatim>\<open>hasattr\<close>.
  The three loops of the source are the three functions below.
\<close>

definition module_of :: "string \<Rightarrow> FileAnalysis \<Rightarrow> ModuleInfo" where
  "module_of file_path analysis =
     \<lparr>mi_path = file_path, mi_imports = fa_imports analysis,
      mi_exported_symbols = map sym_name (fa_symbols analysis),
      mi_is_entry_point = False, mi_dependency_count = 0, mi_dependent_count = 0\<rparr>"

fun create_nodes :: "(string \<times> FileAnalysis) list \<Rightarrow> DependencyAnalyzer \<Rightarrow> DependencyAnalyzer" where
  "create_nodes [] a = a"
| "create_nodes ((file_path, analysis) # rest) a =
     create_nodes rest
       (a\<lparr>modules := AList.update file_path (module_of file_path analysis) (modules a),
          dependency_graph := add_node file_path (dependency_graph a)\<rparr>)"

text \<open>
  The inner loop over the imports of one module: \<^verbatim>\<open>keys\<close> are
  \<^verbatim>\<open>file_analyses.keys()\<close> and \<^verbatim>\<open>mods\<close> the keys of \<^verbatim>\<open>self.modules\<close>.
\<close>

fun add_import_edges :: "string \<Rightarrow> string list \<Rightarrow> string list \<Rightarrow> string list \<Rightarrow> DiGraph \<Rightarrow> DiGraph" where
  "add_import_edges file_path [] keys mods g = g"
| "add_import_edges file_path (import_path # rest) keys mods g =
     (let resolved = resolve_import import_path keys
      in add_import_edges file_path rest keys mods
           (if resolved \<noteq> [] \<and> resolved \<in> set mods then add_edge file_path resolved g else g))"

fun create_edges :: "(string \<times> ModuleInfo) list \<Rightarrow> string list \<Rightarrow> string list \<Rightarrow> DiGraph \<Rightarrow> DiGraph" where
  "create_edges [] keys mods g = g"
| "create_edges ((file_path, module_info) # rest) keys mods g =
     create_edges rest keys mods (add_import_edges file_path (mi_imports module_info) keys mods g)"

fun calculate_counts :: "string list \<Rightarrow> DiGraph \<Rightarrow> (string \<times> ModuleInfo) list \<Rightarrow> (string \<times> ModuleInfo) list" where
  "calculate_counts [] g ms = ms"
| "calculate_counts (file_path # rest) g ms =
     calculate_counts rest g
       (AList.map_entry file_path
          (\<lambda>m. m\<lparr>mi_dependency_count := int (out_degree g file_path),
                  mi_dependent_count := int (in_degree g file_path)\<rparr>) ms)"

definition build_dependency_graph :: "(string \<times> FileAnalysis) list \<Rightarrow> DependencyAnalyzer \<Rightarrow> DependencyAnalyzer" where
  "build_dependency_graph file_analyses a =
     (let a1 = create_nodes file_analyses a;
          g = create_edges (modules a1) (map fst file_analyses) (map fst (modules a1))
                (dependency_graph a1);
          ms = calculate_counts (map fst (modules a1)) g (modules a1)
      in \<lparr>dependency_graph = g, modules = ms\<rparr>)"

text \<open>
  The targets a list of imports resolves to among the files \<^verbatim>\<open>keys\<close>, each once: the
  distinct resolved outgoing imports of a module.
\<close>

definition resolved_targets :: "string list \<Rightarrow> string list \<Rightarrow> string list" where
  "resolved_targets imports keys =
     remdups (filter (\<lambda>r. r \<noteq> []) (map (\<lambda>i. resolve_import i keys) imports))"

text \<open>The modules one of whose imports resolves to \<^verbatim>\<open>p\<close>, the module of \<^verbatim>\<open>p\<close> included.\<close>

definition importers :: "string \<Rightarrow> string list \<Rightarrow> (string \<times> ModuleInfo) list \<Rightarrow> string list" where
  "importers p keys ms =
     map fst (filter (\<lambda>(q, m). p \<in> set (resolved_targets (mi_imports m) keys)) ms)"

text \<open>
  \<^verbatim>\<open>identify_leaf_modules(self)\<close>, whose docstring reads: identify leaf modules (no
  other modules depend on them).
\<close>

definition identify_leaf_modules :: "DependencyAnalyzer \<Rightarrow> ModuleInfo list" where
  "identify_leaf_modules a = filter (\<lambda>m. mi_dependent_count m = 0) (map snd (modules a))"

text \<open>
  \<^verbatim>\<open>get_module_importance_score(self, file_path) -> float\<close>. The function
  \<^verbatim>\<open>nx.betweenness_centrality\<close> belongs to the graph library, not to the repository:
  its outcome on the graph of the analyzer is the parameter \<^verbatim>\<open>centrality_result\<close>,
  either an exception or the dictionary from nodes to centralities, read with
  \<^verbatim>\<open>centrality.get(file_path, 0)\<close>. The floats are modelled by the reals they denote.
  An exception inside the \<^verbatim>\<open>try\<close> block, the KeyError of \<^verbatim>\<open>self.modules[file_path]\<close>
  included, leads to the \<^verbatim>\<open>except\<close> branch, whose own \<^verbatim>\<open>self.modules[file_path]\<close>
  is outside every handler.
\<close>

definition modules_lookup :: "DependencyAnalyzer \<Rightarrow> string \<Rightarrow> py_error + ModuleInfo" where
  "modules_lookup a file_path =
     (case map_of (modules a) file_path of None \<Rightarrow> Inl KeyError | Some m \<Rightarrow> Inr m)"

definition importance_try_block :: "DependencyAnalyzer \<Rightarrow> py_error + (string \<rightharpoonup> real) \<Rightarrow> string \<Rightarrow> py_error + real" where
  "importance_try_block a centrality_result file_path =
     (case centrality_result of
        Inl e \<Rightarrow> Inl e
      | Inr centrality \<Rightarrow>
          (let centrality_score = (case centrality file_path of None \<Rightarrow> 0 | Some c \<Rightarrow> c) * 50
           in case modules_lookup a file_path of
                Inl e \<Rightarrow> Inl e
              | Inr m \<Rightarrow>
                  (let dependent_score = min (mi_dependent_count m * 5) 50
                   in Inr (min (centrality_score + real_of_int dependent_score) 100))))"

definition get_module_importance_score :: "DependencyAnalyzer \<Rightarrow> py_error + (string \<rightharpoonup> real) \<Rightarrow> string \<Rightarrow> py_error + real" where
  "get_module_importance_score a centrality_result file_path =
     (if file_path \<notin> set (g_nodes (dependency_graph a)) then Inr 0
      else (case importance_try_block a centrality_result file_path of
              Inr score \<Rightarrow> Inr score
            | Inl e \<Rightarrow>
                (case modules_lookup a file_path of
                   Inl e' \<Rightarrow> Inl e'
                 | Inr m \<Rightarrow> Inr (real_of_int (mi_dependent_count m * 10)))))"

section \<open>Relevance of a file to a query\<close>

text \<open>
  Source: \<^verbatim>\<open>src/code_archaeology/tools/learning_path_tool.py\<close>.
  \<^verbatim>\<open>_find_relevant_files(self, area, file_analyses)\<close> keeps the paths that contain a
  word of the area; \<^verbatim>\<open>_run\<close> calls it with \<^verbatim>\<open>area.lower()\<close>.
\<close>

definition find_relevant_files :: "string \<Rightarrow> (string \<times> FileAnalysis) list \<Rightarrow> string list" where
  "find_relevant_files area file_analyses =
     (let keywords = split_ws area
      in filter (\<lambda>file_path.
                  let file_path_lower = str_lower file_path
                  in list_ex (\<lambda>keyword. str_contains file_path_lower keyword) keywords)
           (map fst file_analyses))"

definition learning_path_relevant_files :: "string \<Rightarrow> (string \<times> FileAnalysis) list \<Rightarrow> string list" where
  "learning_path_relevant_files area file_analyses =
     find_relevant_files (str_lower area) file_analyses"

text \<open>
  Source: \<^verbatim>\<open>src/onboarding_agent/tools/entry_point_tool.py\<close>.
  \<^verbatim>\<open>_extract_keywords(self, text)\<close>: the words that are no stop word and longer than
  two characters, each then stripped of the punctuation \<^verbatim>\<open>,.!?\<close>.
\<close>

definition stop_words :: "string list" where
  "stop_words = [''a'', ''an'', ''the'', ''to'', ''for'', ''in'', ''on'', ''at'', ''add'',
     ''create'', ''update'', ''fix'', ''implement'', ''new'', ''and'', ''or'', ''is'', ''are'',
     ''was'', ''were'']"

definition extract_keywords :: "string \<Rightarrow> string list" where
  "extract_keywords text =
     (let words = split_ws text
      in map (\<lambda>w. strip_chars w '',.!?'')
           (filter (\<lambda>w. w \<notin> set stop_words \<and> length w > 2) words))"

text \<open>
  The score of one file in \<^verbatim>\<open>_run\<close>: the loop over the keywords adds the weight for
  every keyword the lower-cased text contains (10 for the path, 5 for a symbol name),
  and the loop over the symbols runs the keyword loop for each symbol. A file gets a
  suggestion when its score is above 0; the importance that is added afterwards, the
  sorting and the cut to five entries for display come after this choice.
\<close>

fun score_keywords :: "int \<Rightarrow> string list \<Rightarrow> string \<Rightarrow> int \<Rightarrow> int" where
  "score_keywords weight [] text_lower score = score"
| "score_keywords weight (keyword # rest) text_lower score =
     score_keywords weight rest text_lower
       (if str_contains text_lower keyword then score + weight else score)"

fun score_symbols :: "string list \<Rightarrow> CodeSymbol list \<Rightarrow> int \<Rightarrow> int" where
  "score_symbols keywords [] score = score"
| "score_symbols keywords (symbol # rest) score =
     score_symbols keywords rest
       (score_keywords 5 keywords (str_lower (sym_name symbol)) score)"

definition match_score :: "string list \<Rightarrow> string \<Rightarrow> FileAnalysis \<Rightarrow> int" where
  "match_score keywords file_path analysis =
     score_symbols keywords (fa_symbols analysis)
       (score_keywords 10 keywords (str_lower file_path) 0)"

definition suggested_files :: "string \<Rightarrow> (string \<times> FileAnalysis) list \<Rightarrow> string list" where
  "suggested_files task_description file_analyses =
     (let keywords = extract_keywords (str_lower task_description)
      in map fst (filter (\<lambda>(file_path, analysis). match_score keywords file_path analysis > 0)
                         file_analyses))"

text \<open>
  The relevance of the specification, in its words: some whitespace-delimited keyword of
  the query, after removal of the stop words, occurs as a substring of the path of the
  file or of one of its declared symbol names.
\<close>

definition spec_relevant :: "string \<Rightarrow> string \<Rightarrow> string list \<Rightarrow> bool" where
  "spec_relevant query file_path symbol_names \<longleftrightarrow>
     list_ex (\<lambda>keyword. str_contains file_path keyword
                \<or> list_ex (\<lambda>n. str_contains n keyword) symbol_names)
       (filter (\<lambda>w. w \<notin> set stop_words) (split_ws query))"

section \<open>Git analyzer\<close>

text \<open>
  Source: \<^verbatim>\<open>src/code_archaeology/analyzers/git_analyzer.py\<close>. The analyzer reads the
  file system once, in \<^verbatim>\<open>__init__\<close>, and afterwards only runs git through
  \<^verbatim>\<open>subprocess.run([...], capture_output=True, text=True, check=True)\<close>. A run has one
  of three outcomes: the command completes with exit status zero and its standard
  output; it exits with a non-zero status, for which \<^verbatim>\<open>check=True\<close> raises
  CalledProcessError; or no output is obtained at all, because the executable cannot be
  started (FileNotFoundError, an OSError) and \<^verbatim>\<open>subprocess.run\<close> raises that error.
  The environment is the function from the arguments of a command to its outcome.
\<close>

datatype run_result = Completed string | NonZeroExit | NotStarted

definition py_bind :: "py_error + 'a \<Rightarrow> ('a \<Rightarrow> py_error + 'b) \<Rightarrow> py_error + 'b" where
  "py_bind x f = (case x of Inl e \<Rightarrow> Inl e | Inr v \<Rightarrow> f v)"


text \<open>
  \<^verbatim>\<open>_run_git_command(self, args) -> str\<close>: the only handler is
  \<^verbatim>\<open>except subprocess.CalledProcessError\<close>, which returns the empty string.
\<close>

definition run_git_command :: "(string list \<Rightarrow> run_result) \<Rightarrow> string list \<Rightarrow> py_error + string" where
  "run_git_command git args =
     (case git args of
        Completed stdout \<Rightarrow> Inr (str_strip stdout)
      | NonZeroExit \<Rightarrow> Inr []
      | NotStarted \<Rightarrow> Inl FileNotFoundError)"

text \<open>
  \<^verbatim>\<open>int(s)\<close> on a string: surrounding whitespace and one sign are allowed, then
  decimal digits with single underscores between them; anything else is ValueError.
  The whitespace \<^verbatim>\<open>int\<close> skips is narrower than that of \<^verbatim>\<open>str.strip\<close>: the ASCII
  characters tab to carriage return and space, and the two spaces above 127; the
  separators 0x1C to 0x1F are no whitespace for it, so \<^verbatim>\<open>int("\x1c5")\<close> raises.
  The interpreter also refuses, with ValueError, a string of more digits than
  \<^verbatim>\<open>sys.get_int_max_str_digits()\<close>, 4300 unless the interpreter is told otherwise.
\<close>

definition int_max_str_digits :: int where
  "int_max_str_digits = 4300"

definition is_int_space :: "char \<Rightarrow> bool" where
  "is_int_space c \<longleftrightarrow> c \<in> set [CHR 0x09, CHR 0x0A, CHR 0x0B, CHR 0x0C, CHR 0x0D,
      CHR 0x20, CHR 0x85, CHR 0xA0]"

definition is_digit :: "char \<Rightarrow> bool" where
  "is_digit c \<longleftrightarrow> (48::int) \<le> of_char c \<and> (of_char c :: int) \<le> 57"

definition valid_int_body :: "string \<Rightarrow> bool" where
  "valid_int_body body \<longleftrightarrow>
     body \<noteq> [] \<and> is_digit (hd body) \<and> is_digit (last body)
     \<and> list_all (\<lambda>c. is_digit c \<or> c = CHR ''_'') body
     \<and> \<not> str_contains body ''__''"

definition py_int :: "string \<Rightarrow> py_error + int" where
  "py_int s =
     (let t = rev (dropWhile is_int_space (rev (dropWhile is_int_space s)));
          body = (if startswith t ''-'' \<or> startswith t ''+'' then tl t else t);
          magnitude = foldl (\<lambda>n c. 10 * n + (of_char c - 48)) (0::int) (filter is_digit body)
      in if valid_int_body body \<and> int (length (filter is_digit body)) \<le> int_max_str_digits
         then Inr (if startswith t ''-'' then - magnitude else magnitude)
         else Inl ValueError)"

text \<open>\<^verbatim>\<open>str(n)\<close> for an integer, used in the f-string of \<^verbatim>\<open>get_recent_activity\<close>.\<close>

fun digits_of_nat :: "nat \<Rightarrow> string" where
  "digits_of_nat n =
     (if n < 10 then [char_of (48 + n)]
      else digits_of_nat (n div 10) @ [char_of (48 + n mod 10)])"

definition str_of_int :: "int \<Rightarrow> string" where
  "str_of_int i = (if i < 0 then CHR ''-'' # digits_of_nat (nat (- i)) else digits_of_nat (nat i))"

text \<open>
  The \<^verbatim>\<open>datetime\<close> class belongs to the standard library, not to the repository: the
  type of its values is the type parameter \<^verbatim>\<open>'d\<close>, and the queries take
  \<^verbatim>\<open>datetime.fromtimestamp\<close>, which raises for a timestamp outside the range of the
  platform and its time zone, and the value of \<^verbatim>\<open>datetime.now()\<close> as the parameters
  \<^verbatim>\<open>fromtimestamp\<close> and \<^verbatim>\<open>now\<close>.
\<close>

record 'd FileHistory =
  fh_file_path :: string
  fh_commit_count :: int
  fh_authors :: "string list"
  fh_last_modified :: 'd
  fh_creation_date :: 'd
  fh_churn_score :: int

record ContributorStats =
  cs_name :: string
  cs_email :: string
  cs_commit_count :: int
  cs_files_touched :: int
  cs_lines_added :: int
  cs_lines_deleted :: int

text \<open>
  \<^verbatim>\<open>get_file_history(self, file_path) -> Optional[FileHistory]\<close>. The list made from
  the set of author names has each name once; its order is not fixed by Python.
\<close>

definition get_file_history :: "(string list \<Rightarrow> run_result) \<Rightarrow> (int \<Rightarrow> py_error + 'd) \<Rightarrow> 'd \<Rightarrow> string \<Rightarrow> py_error + 'd FileHistory option" where
  "get_file_history git fromtimestamp now file_path =
     py_bind (run_git_command git [''rev-list'', ''--count'', ''HEAD'', ''--'', file_path])
       (\<lambda>commit_count_output.
     if commit_count_output = [] then Inr None
     else
     py_bind (py_int commit_count_output) (\<lambda>commit_count.
     py_bind (run_git_command git [''log'', ''--format=%an'', ''--'', file_path])
       (\<lambda>authors_output.
     let authors = (if authors_output \<noteq> [] then remdups (split_sep authors_output ''\<newline>'') else [])
     in
     py_bind (run_git_command git [''log'', ''-1'', ''--format=%ct'', ''--'', file_path])
       (\<lambda>last_modified_output.
     py_bind (if last_modified_output \<noteq> []
              then py_bind (py_int last_modified_output) fromtimestamp
              else Inr now) (\<lambda>last_modified.
     py_bind (run_git_command git [''log'', ''--diff-filter=A'', ''--format=%ct'', ''--'', file_path])
       (\<lambda>creation_output.
     let creation_lines = (if creation_output \<noteq> [] then split_sep creation_output ''\<newline>'' else [])
     in
     py_bind (if creation_lines \<noteq> []
              then py_bind (py_int (last creation_lines)) fromtimestamp
              else Inr last_modified) (\<lambda>creation_date.
     Inr (Some \<lparr>fh_file_path = file_path, fh_commit_count = commit_count,
                 fh_authors = authors, fh_last_modified = last_modified,
                 fh_creation_date = creation_date, fh_churn_score = commit_count\<rparr>))))))))"

text \<open>
  \<^verbatim>\<open>get_hotspots(self, limit)\<close>: the loop over the tracked files, the stable sort by
  descending churn, and the slice \<^verbatim>\<open>[:limit]\<close>, which for a negative limit drops from
  the end.
\<close>

fun collect_histories :: "(string list \<Rightarrow> run_result) \<Rightarrow> (int \<Rightarrow> py_error + 'd) \<Rightarrow> 'd \<Rightarrow> string list \<Rightarrow> py_error + 'd FileHistory list" where
  "collect_histories git fromtimestamp now [] = Inr []"
| "collect_histories git fromtimestamp now (file_path # rest) =
     py_bind (get_file_history git fromtimestamp now file_path) (\<lambda>history.
     py_bind (collect_histories git fromtimestamp now rest) (\<lambda>file_histories.
     Inr (case history of None \<Rightarrow> file_histories | Some h \<Rightarrow> h # file_histories)))"

definition py_take :: "int \<Rightarrow> 'a list \<Rightarrow> 'a list" where
  "py_take limit xs =
     (if 0 \<le> limit then take (nat limit) xs else take (length xs - nat (- limit)) xs)"

definition get_hotspots :: "(string list \<Rightarrow> run_result) \<Rightarrow> (int \<Rightarrow> py_error + 'd) \<Rightarrow> 'd \<Rightarrow> int \<Rightarrow> py_error + 'd FileHistory list" where
  "get_hotspots git fromtimestamp now limit =
     py_bind (run_git_command git [''ls-files'']) (\<lambda>files_output.
     if files_output = [] then Inr []
     else
     py_bind (collect_histories git fromtimestamp now (split_sep files_output ''\<newline>''))
       (\<lambda>file_histories.
     Inr (py_take limit (sort_key (\<lambda>h. - fh_churn_score h) file_histories))))"

text \<open>
  \<^verbatim>\<open>get_contributor_stats(self)\<close>. The sums over the numstat lines are inside
  \<^verbatim>\<open>try ... except ValueError: pass\<close>: a line whose first number does not parse adds
  nothing, a line whose second number does not parse has already added the first.
\<close>

definition parse_author :: "string \<Rightarrow> py_error + string \<times> string" where
  "parse_author author_info =
     (if str_contains author_info ''<'' \<and> str_contains author_info ''>'' then
        (case index_opt (split_sep author_info ''<'') 1 of
           None \<Rightarrow> Inl IndexError
         | Some after \<Rightarrow>
             Inr (str_strip (hd (split_sep author_info ''<'')), str_strip (hd (split_sep after ''>''))))
      else Inr (author_info, []))"

definition numstat_field :: "string \<Rightarrow> py_error + int" where
  "numstat_field p = (if p \<noteq> ''-'' then py_int p else Inr 0)"

fun sum_numstat :: "string list \<Rightarrow> int \<times> int \<Rightarrow> int \<times> int" where
  "sum_numstat [] totals = totals"
| "sum_numstat (stat_line # rest) (lines_added, lines_deleted) =
     sum_numstat rest
       (if str_strip stat_line = [] then (lines_added, lines_deleted)
        else
          (let parts = split_sep stat_line [CHR 0x09] in
           if 2 \<le> length parts then
             (case numstat_field (parts ! 0) of
                Inl e \<Rightarrow> (lines_added, lines_deleted)
              | Inr a \<Rightarrow>
                  (case numstat_field (parts ! 1) of
                     Inl e \<Rightarrow> (lines_added + a, lines_deleted)
                   | Inr d \<Rightarrow> (lines_added + a, lines_deleted + d)))
           else (lines_added, lines_deleted)))"

definition contributor_of_line :: "(string list \<Rightarrow> run_result) \<Rightarrow> string \<Rightarrow> py_error + ContributorStats option" where
  "contributor_of_line git line =
     (if str_strip line = [] then Inr None
      else
        (let parts = split_sep (str_strip line) [CHR 0x09] in
         if length parts < 2 then Inr None
         else
         py_bind (py_int (parts ! 0)) (\<lambda>commit_count.
         py_bind (parse_author (parts ! 1)) (\<lambda>(name, email).
         py_bind (run_git_command git [''log'', ''--author='' @ email, ''--name-only'', ''--format=''])
           (\<lambda>files_output.
         let files_touched =
               (if files_output \<noteq> [] then int (length (remdups (split_sep files_output ''\<newline>'')))
                else 0)
         in
         py_bind (run_git_command git [''log'', ''--author='' @ email, ''--numstat'', ''--format=''])
           (\<lambda>stats_output.
         let totals = (if stats_output \<noteq> [] then sum_numstat (split_sep stats_output ''\<newline>'') (0, 0)
                       else (0, 0))
         in Inr (Some \<lparr>cs_name = name, cs_email = email, cs_commit_count = commit_count,
                        cs_files_touched = files_touched, cs_lines_added = fst totals,
                        cs_lines_deleted = snd totals\<rparr>)))))))"

fun collect_contributors :: "(string list \<Rightarrow> run_result) \<Rightarrow> string list \<Rightarrow> py_error + ContributorStats list" where
  "collect_contributors git [] = Inr []"
| "collect_contributors git (line # rest) =
     py_bind (contributor_of_line git line) (\<lambda>contributor.
     py_bind (collect_contributors git rest) (\<lambda>contributors.
     Inr (case contributor of None \<Rightarrow> contributors | Some c \<Rightarrow> c # contributors)))"

definition get_contributor_stats :: "(string list \<Rightarrow> run_result) \<Rightarrow> py_error + ContributorStats list" where
  "get_contributor_stats git =
     py_bind (run_git_command git [''shortlog'', ''-sne'', ''HEAD'']) (\<lambda>authors_output.
     if authors_output = [] then Inr []
     else collect_contributors git (split_sep authors_output ''\<newline>''))"

text \<open>
  \<^verbatim>\<open>get_recent_activity(self, days) -> Dict[str, int]\<close>: the dictionary as an association
  list in insertion order.
\<close>

fun count_files :: "string list \<Rightarrow> (string \<times> int) list \<Rightarrow> (string \<times> int) list" where
  "count_files [] file_counts = file_counts"
| "count_files (file_path # rest) file_counts =
     count_files rest
       (if str_strip file_path \<noteq> []
        then AList.update file_path
               ((case map_of file_counts file_path of None \<Rightarrow> 0 | Some c \<Rightarrow> c) + 1) file_counts
        else file_counts)"

definition get_recent_activity :: "(string list \<Rightarrow> run_result) \<Rightarrow> int \<Rightarrow> py_error + (string \<times> int) list" where
  "get_recent_activity git days =
     py_bind (run_git_command git
                [''log'', ''--since='' @ str_of_int days @ ''.days.ago'', ''--name-only'', ''--format=''])
       (\<lambda>output.
     if output = [] then Inr []
     else Inr (count_files (split_sep output ''\<newline>'') []))"

text \<open>\<^verbatim>\<open>is_actively_maintained(self) -> bool\<close>.\<close>

definition is_actively_maintained :: "(string list \<Rightarrow> run_result) \<Rightarrow> py_error + bool" where
  "is_actively_maintained git =
     py_bind (run_git_command git [''rev-list'', ''--count'', ''HEAD'', ''--since=90.days.ago''])
       (\<lambda>recent_commits.
     if recent_commits \<noteq> [] then py_bind (py_int recent_commits) (\<lambda>n. Inr (0 < n))
     else Inr False)"


section \<open>Properties of the complexity analyzer\<close>

lemma band_rank_classify:
  "band_rank (classify_complexity c) =
     (if c \<le> 5 then 0 else if c \<le> 10 then 1 else if c \<le> 20 then 2 else 3)"
  by (simp add: classify_complexity_def band_rank_def SIMPLE_def MODERATE_def COMPLEX_def)

text \<open>
  Claim C3. The risk level is the first match of the chain: high when the average
  complexity is above 20 or the maintainability index is below 10; otherwise medium
  when the average is above 10 or the index is below 20; otherwise low. It is a
  function of these two arguments only: each level is characterised by a condition on
  the two numbers, and the three conditions exclude each other and cover every pair.
\<close>

theorem determine_risk_level_chain:
  "determine_risk_level a m =
     (if a > 20 \<or> m < 10 then ''high''
      else if a > 10 \<or> m < 20 then ''medium''
      else ''low'')
   \<and> (determine_risk_level a m = ''high'') = (a > 20 \<or> m < 10)
   \<and> (determine_risk_level a m = ''medium'') = (a \<le> 20 \<and> 10 \<le> m \<and> (a > 10 \<or> m < 20))
   \<and> (determine_risk_level a m = ''low'') = (a \<le> 10 \<and> 20 \<le> m)"
  by (auto simp add: determine_risk_level_def COMPLEX_def MODERATE_def)

theorem determine_risk_level_chain_witness:
  "determine_risk_level 8 8 = ''high''
   \<and> determine_risk_level 15 50 = ''medium''
   \<and> determine_risk_level 25 15 = ''high''
   \<and> determine_risk_level 10 20 = ''low''"
  using determine_risk_level_chain [of 8 8] determine_risk_level_chain [of 15 50]
    determine_risk_level_chain [of 25 15] determine_risk_level_chain [of 10 20]
  by simp

text \<open>
  Claim C4. The classification uses the thresholds 5, 10 and 20 (at most 5 is simple,
  at most 10 moderate, at most 20 complex, anything above very_complex), and it is
  monotone: for c1 < c2 the band of c1 is never above the band of c2.
\<close>

theorem classify_complexity_monotone:
  "classify_complexity c =
     (if c \<le> 5 then ''simple'' else if c \<le> 10 then ''moderate''
      else if c \<le> 20 then ''complex'' else ''very_complex'')
   \<and> (c1 < c2 \<longrightarrow> band_rank (classify_complexity c1) \<le> band_rank (classify_complexity c2))"
proof
  show "classify_complexity c =
     (if c \<le> 5 then ''simple'' else if c \<le> 10 then ''moderate''
      else if c \<le> 20 then ''complex'' else ''very_complex'')"
    by (simp add: classify_complexity_def SIMPLE_def MODERATE_def COMPLEX_def)
next
  show "c1 < c2 \<longrightarrow> band_rank (classify_complexity c1) \<le> band_rank (classify_complexity c2)"
    unfolding band_rank_classify by simp
qed

theorem classify_complexity_monotone_witness:
  "classify_complexity 3 = ''simple'' \<and> classify_complexity 25 = ''very_complex''
   \<and> (3::int) < 25 \<and> band_rank (classify_complexity 3) \<le> band_rank (classify_complexity 25)"
  using classify_complexity_monotone [of 3 3 25] classify_complexity_monotone [of 25 3 25]
  by (simp add: band_rank_def)

section \<open>Properties of the AST analyzer\<close>

text \<open>
  A split always has a first piece, so the \<^const>\<open>hd\<close> of a split in the
  extractors is the Python index 0 of a non-empty list.
\<close>

lemma split_sep_not_Nil: "split_sep s sep \<noteq> []"
  by (induction s sep rule: split_sep.induct) (auto split: list.splits)

lemma sum_ones_length: "(\<Sum>x\<leftarrow>xs. (1::int)) = int (length xs)"
  by (induction xs) auto

text \<open>
  The split at a single character: no piece contains the character, the pieces joined
  by it give the string back, and there is one piece more than occurrences. The
  stripped form of a string is the string without its leading and trailing whitespace;
  it is empty exactly when the string is all whitespace, and otherwise it starts with
  the first character of the string that is no whitespace.
\<close>

lemma startswith_char: "startswith s [c] \<longleftrightarrow> s \<noteq> [] \<and> hd s = c"
  by (cases s) (auto simp add: startswith_def)

lemma split_sep_char_Cons:
  "split_sep (x # xs) [c] =
     (if x = c then [] # split_sep xs [c]
      else (x # hd (split_sep xs [c])) # tl (split_sep xs [c]))"
  using split_sep_not_Nil [of xs "[c]"]
  by (cases "split_sep xs [c]") (auto simp add: startswith_char)

lemma split_sep_char_pieces: "p \<in> set (split_sep s [c]) \<Longrightarrow> c \<notin> set p"
proof (induction s arbitrary: p)
  case Nil
  then show ?case by simp
next
  case (Cons x xs)
  from split_sep_not_Nil [of xs "[c]"] obtain w ws where ws: "split_sep xs [c] = w # ws"
    by (cases "split_sep xs [c]") auto
  with Cons show ?case
    by (auto simp add: split_sep_char_Cons simp del: split_sep.simps split: if_splits)
qed

lemma split_sep_char_join: "concat (map (\<lambda>p. p @ [c]) (split_sep s [c])) = s @ [c]"
proof (induction s)
  case Nil
  then show ?case by simp
next
  case (Cons x xs)
  from split_sep_not_Nil [of xs "[c]"] obtain w ws where ws: "split_sep xs [c] = w # ws"
    by (cases "split_sep xs [c]") auto
  with Cons show ?case
    by (auto simp add: split_sep_char_Cons simp del: split_sep.simps)
qed

lemma split_sep_char_length: "length (split_sep s [c]) = Suc (count_list s c)"
proof (induction s)
  case Nil
  then show ?case by simp
next
  case (Cons x xs)
  from split_sep_not_Nil [of xs "[c]"] obtain w ws where ws: "split_sep xs [c] = w # ws"
    by (cases "split_sep xs [c]") auto
  with Cons show ?case
    by (auto simp add: split_sep_char_Cons simp del: split_sep.simps)
qed

lemma rstrip_keeps_front:
  assumes "t \<noteq> []" and "\<not> P (hd t)"
  shows "rev (dropWhile P (rev t)) \<noteq> [] \<and> hd (rev (dropWhile P (rev t))) = hd t"
proof -
  from assms(1) obtain x xs where t: "t = x # xs" by (cases t) auto
  with assms(2) have nx: "\<not> P x" by simp
  have "dropWhile P (rev xs @ [x]) = dropWhile P (rev xs) @ [x]"
    using nx by (simp add: dropWhile_append)
  then have "rev (dropWhile P (rev t)) = x # rev (dropWhile P (rev xs))"
    by (simp add: t)
  with t show ?thesis by simp
qed

lemma str_lstrip_empty_iff: "str_lstrip s = [] \<longleftrightarrow> list_all is_space s"
  by (simp add: str_lstrip_def dropWhile_eq_Nil_conv list_all_iff)

lemma str_strip_empty_iff: "str_strip s = [] \<longleftrightarrow> list_all is_space s"
proof (cases "str_lstrip s = []")
  case True
  then show ?thesis
    using str_lstrip_empty_iff [of s] by (simp add: str_strip_def str_rstrip_def)
next
  case False
  then have "\<not> is_space (hd (str_lstrip s))"
    unfolding str_lstrip_def by (rule hd_dropWhile)
  from rstrip_keeps_front [where P = is_space, OF False this] False show ?thesis
    using str_lstrip_empty_iff [of s] by (simp add: str_strip_def str_rstrip_def)
qed

lemma str_strip_hd:
  "\<not> list_all is_space s \<Longrightarrow> hd (str_strip s) = hd (dropWhile is_space s)"
proof -
  assume "\<not> list_all is_space s"
  then have ne: "str_lstrip s \<noteq> []" by (simp add: str_lstrip_empty_iff)
  then have "\<not> is_space (hd (str_lstrip s))"
    unfolding str_lstrip_def by (rule hd_dropWhile)
  from rstrip_keeps_front [where P = is_space, OF ne this] show ?thesis
    by (simp add: str_strip_def str_rstrip_def str_lstrip_def)
qed

lemma str_strip_middle:
  "\<exists>pre post. s = pre @ str_strip s @ post \<and> list_all is_space pre \<and> list_all is_space post"
proof -
  let ?t = "dropWhile is_space s"
  have 1: "s = takeWhile is_space s @ ?t" by simp
  have 2: "?t = rev (dropWhile is_space (rev ?t)) @ rev (takeWhile is_space (rev ?t))"
    by (metis rev_append rev_rev_ident takeWhile_dropWhile_id)
  have "s = takeWhile is_space s @ str_strip s @ rev (takeWhile is_space (rev ?t))"
    using 1 2 by (simp add: str_strip_def str_rstrip_def str_lstrip_def)
  moreover have "list_all is_space (takeWhile is_space s)"
    by (simp add: list_all_iff) (meson set_takeWhileD)
  moreover have "list_all is_space (rev (takeWhile is_space (rev ?t)))"
    by (simp add: list_all_iff) (meson set_takeWhileD)
  ultimately show ?thesis by blast
qed

lemma str_strip_ends:
  "str_strip s \<noteq> [] \<Longrightarrow> \<not> is_space (hd (str_strip s)) \<and> \<not> is_space (last (str_strip s))"
proof -
  assume ne: "str_strip s \<noteq> []"
  then have "\<not> list_all is_space s" by (simp add: str_strip_empty_iff)
  then have "hd (str_strip s) = hd (dropWhile is_space s)" by (rule str_strip_hd)
  moreover from \<open>\<not> list_all is_space s\<close> have "dropWhile is_space s \<noteq> []"
    by (simp add: dropWhile_eq_Nil_conv list_all_iff)
  then have "\<not> is_space (hd (dropWhile is_space s))" by (rule hd_dropWhile)
  moreover from ne have d: "dropWhile is_space (rev (str_lstrip s)) \<noteq> []"
    by (simp add: str_strip_def str_rstrip_def)
  then have "\<not> is_space (hd (dropWhile is_space (rev (str_lstrip s))))" by (rule hd_dropWhile)
  then have "\<not> is_space (last (str_strip s))"
    using d by (simp add: str_strip_def str_rstrip_def last_rev)
  ultimately show ?thesis by simp
qed

lemma is_code_line_iff:
  "is_code_line line \<longleftrightarrow>
     \<not> list_all is_space line \<and> hd (dropWhile is_space line) \<noteq> CHR ''#''"
  by (auto simp add: is_code_line_def startswith_char str_strip_empty_iff str_strip_hd)

text \<open>
  Claim C9. Whenever \<^const>\<open>analyze_file\<close> returns an analysis, whatever language
  \<^const>\<open>LANGUAGE_MAP\<close> gives the file, its \<^const>\<open>fa_code_lines\<close> is the number of lines
  of the content whose stripped form is non-empty and does not start with \<^verbatim>\<open>#\<close>, that
  is, of the lines that are not all whitespace and whose first character that is no
  whitespace is not \<^verbatim>\<open>#\<close>; and it is at most \<^const>\<open>fa_total_lines\<close>, which is one more
  than the number of newline characters. The witness is a JavaScript file: its
  \<^verbatim>\<open>//\<close> comment line counts as a code line, its indented \<^verbatim>\<open>#\<close> line, its
  whitespace-only line and its empty line do not.
\<close>

theorem analyze_file_code_lines:
  assumes "analyze_file fs file_path = Some fa"
  shows "\<exists>content. fs file_path = Content content
           \<and> LANGUAGE_MAP (path_suffix file_path) = Some (fa_language fa)
           \<and> fa_total_lines fa = int (length (split_sep content ''\<newline>''))
           \<and> fa_total_lines fa = 1 + int (count_list content CHR 0x0A)
           \<and> fa_code_lines fa =
               int (length (filter (\<lambda>line. str_strip line \<noteq> [] \<and> \<not> startswith (str_strip line) ''#'')
                                   (split_sep content ''\<newline>'')))
           \<and> fa_code_lines fa =
               int (length (filter (\<lambda>line. \<not> list_all is_space line
                                            \<and> hd (dropWhile is_space line) \<noteq> CHR ''#'')
                                   (split_sep content ''\<newline>'')))
           \<and> fa_code_lines fa \<le> fa_total_lines fa"
proof -
  from assms obtain language content where
    c: "fs file_path = Content content" and
    l: "LANGUAGE_MAP (path_suffix file_path) = Some language" and
    fa: "fa = \<lparr>fa_file_path = file_path, fa_language = language,
              fa_symbols = extract_symbols_simple content language file_path,
              fa_imports = extract_imports_simple content language,
              fa_total_lines = int (length (split_sep content ''\<newline>'')),
              fa_code_lines = (\<Sum>line \<leftarrow> filter is_code_line (split_sep content ''\<newline>''). 1)\<rparr>"
    by (auto simp add: analyze_file_def Let_def split: if_splits option.splits file_state.splits)
  have f1: "filter is_code_line =
      filter (\<lambda>line. str_strip line \<noteq> [] \<and> \<not> startswith (str_strip line) ''#'')"
    by (simp add: is_code_line_def [abs_def])
  have f2: "filter is_code_line =
      filter (\<lambda>line. \<not> list_all is_space line \<and> hd (dropWhile is_space line) \<noteq> CHR ''#'')"
    by (simp add: is_code_line_iff [abs_def])
  have code: "fa_code_lines fa = int (length (filter is_code_line (split_sep content ''\<newline>'')))"
    by (simp add: fa sum_ones_length)
  have total: "fa_total_lines fa = int (length (split_sep content ''\<newline>''))"
    by (simp add: fa)
  have "fa_code_lines fa \<le> fa_total_lines fa"
    unfolding code total by simp
  moreover have "fa_total_lines fa = 1 + int (count_list content CHR 0x0A)"
    unfolding total by (simp add: split_sep_char_length)
  moreover have "fa_language fa = language" by (simp add: fa)
  ultimately show ?thesis
    using c l code total unfolding f1 [symmetric] f2 [symmetric] by auto
qed

theorem analyze_file_code_lines_witness:
  "analyze_file (\<lambda>p. if p = ''src/app.js''
        then Content ''// entry point\<newline>  # indented hash\<newline>   \<newline>\<newline>let x = 1;\<newline># hash''
        else Missing) ''src/app.js''
     = Some \<lparr>fa_file_path = ''src/app.js'', fa_language = ''javascript'', fa_symbols = [],
         fa_imports = [], fa_total_lines = 6, fa_code_lines = 2\<rparr>
   \<and> split_sep ''// entry point\<newline>  # indented hash\<newline>   \<newline>\<newline>let x = 1;\<newline># hash'' ''\<newline>''
       = [''// entry point'', ''  # indented hash'', ''   '', [], ''let x = 1;'', ''# hash'']
   \<and> filter (\<lambda>line. str_strip line \<noteq> [] \<and> \<not> startswith (str_strip line) ''#'')
         [''// entry point'', ''  # indented hash'', ''   '', [], ''let x = 1;'', ''# hash'']
       = [''// entry point'', ''let x = 1;'']
   \<and> (2::int) = int (length (filter (\<lambda>line. str_strip line \<noteq> [] \<and> \<not> startswith (str_strip line) ''#'')
         (split_sep ''// entry point\<newline>  # indented hash\<newline>   \<newline>\<newline>let x = 1;\<newline># hash'' ''\<newline>'')))
   \<and> (2::int) = int (length (filter (\<lambda>line. \<not> list_all is_space line
                                            \<and> hd (dropWhile is_space line) \<noteq> CHR ''#'')
         (split_sep ''// entry point\<newline>  # indented hash\<newline>   \<newline>\<newline>let x = 1;\<newline># hash'' ''\<newline>'')))
   \<and> (6::int) = 1 + int (count_list ''// entry point\<newline>  # indented hash\<newline>   \<newline>\<newline>let x = 1;\<newline># hash'' CHR 0x0A)
   \<and> (2::int) \<le> 6"
proof -
  let ?text = "''// entry point\<newline>  # indented hash\<newline>   \<newline>\<newline>let x = 1;\<newline># hash''"
  let ?fs = "\<lambda>p. if p = ''src/app.js'' then Content ?text else Missing"
  let ?fa = "\<lparr>fa_file_path = ''src/app.js'', fa_language = ''javascript'', fa_symbols = [],
         fa_imports = [], fa_total_lines = 6, fa_code_lines = 2\<rparr>"
  have h: "analyze_file ?fs ''src/app.js'' = Some ?fa" by code_simp
  have lines: "split_sep ?text ''\<newline>''
       = [''// entry point'', ''  # indented hash'', ''   '', [], ''let x = 1;'', ''# hash'']"
    by code_simp
  have kept: "filter (\<lambda>line. str_strip line \<noteq> [] \<and> \<not> startswith (str_strip line) ''#'')
         [''// entry point'', ''  # indented hash'', ''   '', [], ''let x = 1;'', ''# hash'']
       = [''// entry point'', ''let x = 1;'']"
    by code_simp
  from analyze_file_code_lines [OF h] obtain content where
    c: "?fs ''src/app.js'' = Content content" and
    t: "fa_total_lines ?fa = 1 + int (count_list content CHR 0x0A)" and
    n: "fa_code_lines ?fa =
          int (length (filter (\<lambda>line. str_strip line \<noteq> [] \<and> \<not> startswith (str_strip line) ''#'')
                              (split_sep content ''\<newline>'')))" and
    m: "fa_code_lines ?fa =
          int (length (filter (\<lambda>line. \<not> list_all is_space line
                                       \<and> hd (dropWhile is_space line) \<noteq> CHR ''#'')
                              (split_sep content ''\<newline>'')))" and
    le: "fa_code_lines ?fa \<le> fa_total_lines ?fa"
    by blast
  from c have content: "content = ?text" by simp
  have v: "fa_code_lines ?fa = 2" "fa_total_lines ?fa = 6" by simp_all
  note n' = n [unfolded content v]
  note m' = m [unfolded content v]
  note t' = t [unfolded content v]
  note le' = le [unfolded v]
  from h lines kept n' m' t' le' show ?thesis by (intro conjI)
qed

subsection \<open>Python symbol extraction\<close>

lemma def_not_class: "startswith s ''def '' \<Longrightarrow> \<not> startswith s ''class ''"
  by (cases s) (auto simp add: startswith_def)

lemma python_symbol_line_start:
  "python_symbol_of_line i line fp = Some s \<Longrightarrow> sym_line_start s = int i + 1"
  by (auto simp add: python_symbol_of_line_def mk_symbol_def Let_def split: if_splits)

lemma extract_python_symbols_from_bounds:
  "s \<in> set (extract_python_symbols_from k lines fp) \<Longrightarrow> int k < sym_line_start s"
proof (induction lines arbitrary: k)
  case Nil
  then show ?case by simp
next
  case (Cons line rest)
  then show ?case
    by (fastforce split: option.splits dest: python_symbol_line_start)
qed

lemma extract_python_symbols_from_at:
  "i < length lines \<Longrightarrow>
   filter (\<lambda>s. sym_line_start s = int (k + i) + 1) (extract_python_symbols_from k lines fp) =
     (case python_symbol_of_line (k + i) (lines ! i) fp of None \<Rightarrow> [] | Some s \<Rightarrow> [s])"
proof (induction lines arbitrary: k i)
  case Nil
  then show ?case by simp
next
  case (Cons line rest)
  show ?case
  proof (cases i)
    case 0
    have rest: "filter (\<lambda>s. sym_line_start s = int k + 1) (extract_python_symbols_from (Suc k) rest fp) = []"
      by (auto simp add: filter_empty_conv dest: extract_python_symbols_from_bounds)
    with 0 show ?thesis
      by (auto split: option.splits dest: python_symbol_line_start)
  next
    case (Suc j)
    with Cons.prems have j: "j < length rest" by simp
    from Cons.IH [OF j, of "Suc k"] Suc show ?thesis
      by (auto split: option.splits dest: python_symbol_line_start)
  qed
qed

text \<open>
  What the extraction does with a line whose stripped form starts with \<^verbatim>\<open>def \<close>: the
  line yields exactly one symbol for its line number. Its kind is method exactly when
  the source line starts with four spaces or with a tab, and function otherwise; it is
  public exactly when its name does not start with an underscore.
\<close>

theorem python_def_line_symbol:
  assumes "i < length lines" and "startswith (str_strip (lines ! i)) ''def ''"
  shows "filter (\<lambda>s. sym_line_start s = int i + 1) (extract_python_symbols lines file_path) =
     [\<lparr>sym_name = python_def_name (str_strip (lines ! i)),
       sym_type = (if startswith (lines ! i) ''    '' \<or> startswith (lines ! i) [CHR 0x09]
                   then ''method'' else ''function''),
       sym_file_path = file_path,
       sym_line_start = int i + 1, sym_line_end = int i + 1,
       sym_docstring = None, sym_complexity = 0,
       sym_is_public = (\<not> startswith (python_def_name (str_strip (lines ! i))) ''_'')\<rparr>]"
proof -
  from assms(2) have "\<not> startswith (str_strip (lines ! i)) ''class ''"
    by (rule def_not_class)
  with assms(2) have "python_symbol_of_line i (lines ! i) file_path =
     Some (mk_symbol (python_def_name (str_strip (lines ! i)))
        (if startswith (lines ! i) ''    '' \<or> startswith (lines ! i) [CHR 0x09]
         then ''method'' else ''function'') file_path i
        (\<not> startswith (python_def_name (str_strip (lines ! i))) ''_''))"
    by (simp add: python_symbol_of_line_def Let_def)
  with extract_python_symbols_from_at [OF assms(1), of 0 file_path] show ?thesis
    by (simp add: extract_python_symbols_def mk_symbol_def)
qed

theorem python_def_line_symbol_witness:
  "(1::nat) < length [''class A:'', ''    def _run(self):'', ''def main():'']
   \<and> startswith (str_strip ([''class A:'', ''    def _run(self):'', ''def main():''] ! 1)) ''def ''
   \<and> filter (\<lambda>s. sym_line_start s = 2)
        (extract_python_symbols [''class A:'', ''    def _run(self):'', ''def main():''] ''a.py'') =
     [\<lparr>sym_name = ''_run'', sym_type = ''method'', sym_file_path = ''a.py'',
       sym_line_start = 2, sym_line_end = 2, sym_docstring = None, sym_complexity = 0,
       sym_is_public = False\<rparr>]"
proof -
  let ?lines = "[''class A:'', ''    def _run(self):'', ''def main():'']"
  have h1: "(1::nat) < length ?lines" by simp
  have h2: "startswith (str_strip (?lines ! 1)) ''def ''" by code_simp
  have n: "python_def_name (str_strip (?lines ! 1)) = ''_run''" by code_simp
  have m: "startswith (?lines ! 1) ''    ''" by code_simp
  have p: "\<not> startswith ''_run'' ''_'' \<longleftrightarrow> False" by code_simp
  from python_def_line_symbol [OF h1 h2, of "''a.py''"] h1 h2 show ?thesis
    unfolding n using m p by simp
qed

text \<open>
  Claim C6. Every line whose stripped form starts with \<^verbatim>\<open>def \<close> yields a symbol of
  kind function, reclassified as method exactly when the source line has leading
  indentation, and public exactly when its name does not start with an underscore. The
  comment of the source says the same: check if it is a method (indented). The test of
  the source is narrower than its comment: the method \<^verbatim>\<open>helper\<close> of class \<^verbatim>\<open>A\<close>,
  indented by two spaces, has leading indentation and is extracted as a function.
\<close>

theorem python_two_space_method_is_function:
  "is_space (hd ''  def helper(self):'')
   \<and> startswith (str_strip ''  def helper(self):'') ''def ''
   \<and> extract_python_symbols [''class A:'', ''  def helper(self):''] ''a.py''
       = [\<lparr>sym_name = ''A'', sym_type = ''class'', sym_file_path = ''a.py'', sym_line_start = 1,
            sym_line_end = 1, sym_docstring = None, sym_complexity = 0, sym_is_public = True\<rparr>,
          \<lparr>sym_name = ''helper'', sym_type = ''function'', sym_file_path = ''a.py'',
            sym_line_start = 2, sym_line_end = 2, sym_docstring = None, sym_complexity = 0,
            sym_is_public = True\<rparr>]"
  by code_simp

section \<open>Properties of the dependency analyzer\<close>

subsection \<open>Graph operations\<close>

lemma add_node_nodes: "set (g_nodes (add_node n g)) = insert n (set (g_nodes g))"
  by (auto simp add: add_node_def)

lemma add_node_edges: "g_edges (add_node n g) = g_edges g"
  by (simp add: add_node_def)

lemma add_node_distinct: "distinct (g_nodes g) \<Longrightarrow> distinct (g_nodes (add_node n g))"
  by (simp add: add_node_def)

lemma add_edge_nodes: "set (g_nodes (add_edge u v g)) = insert u (insert v (set (g_nodes g)))"
  by (auto simp add: add_edge_def Let_def add_node_nodes)

lemma add_edge_edges: "set (g_edges (add_edge u v g)) = insert (u, v) (set (g_edges g))"
  by (auto simp add: add_edge_def Let_def add_node_edges)

lemma add_edge_distinct_nodes: "distinct (g_nodes g) \<Longrightarrow> distinct (g_nodes (add_edge u v g))"
  by (simp add: add_edge_def Let_def add_node_distinct)

lemma add_edge_distinct_edges: "distinct (g_edges g) \<Longrightarrow> distinct (g_edges (add_edge u v g))"
  by (simp add: add_edge_def Let_def add_node_edges)

subsection \<open>Resolution\<close>

lemma resolve_import_available:
  "resolve_import i keys \<noteq> [] \<Longrightarrow> resolve_import i keys \<in> set keys"
proof (cases "find (\<lambda>path. path \<in> set keys) (potential_paths i)")
  case None
  assume "resolve_import i keys \<noteq> []"
  with None show ?thesis by (simp add: resolve_import_def)
next
  case (Some path)
  then have "path \<in> set keys" by (auto simp add: find_Some_iff)
  with Some show ?thesis by (simp add: resolve_import_def)
qed

lemma replace_from_char:
  "replace_from s [a] [b] = map (\<lambda>c. if c = a then b else c) s"
  by (induction s) (auto simp add: startswith_def)

lemma str_replace_char:
  "str_replace s [a] [b] = map (\<lambda>c. if c = a then b else c) s"
  by (simp add: str_replace_def replace_from_char)

lemma lstrip_chars_dot_slash:
  "lstrip_chars s ''./'' = dropWhile (\<lambda>c. c = CHR ''.'' \<or> c = CHR ''/'') s"
  by (simp add: lstrip_chars_def)

lemma set_resolved_targets:
  "set (resolved_targets imps keys) = {r. r \<noteq> [] \<and> (\<exists>i \<in> set imps. r = resolve_import i keys)}"
  by (auto simp add: resolved_targets_def)

lemma resolved_targets_available: "set (resolved_targets imps keys) \<subseteq> set keys"
  by (auto simp add: set_resolved_targets resolve_import_available)

subsection \<open>The first loop\<close>

lemma create_nodes_edges:
  "g_edges (dependency_graph (create_nodes fa a)) = g_edges (dependency_graph a)"
  by (induction fa a rule: create_nodes.induct) (simp_all add: add_node_edges)

lemma create_nodes_nodes:
  "set (g_nodes (dependency_graph (create_nodes fa a))) =
     set (g_nodes (dependency_graph a)) \<union> fst ` set fa"
  by (induction fa a rule: create_nodes.induct) (auto simp add: add_node_nodes)

lemma create_nodes_distinct_nodes:
  "distinct (g_nodes (dependency_graph a)) \<Longrightarrow>
   distinct (g_nodes (dependency_graph (create_nodes fa a)))"
  by (induction fa a rule: create_nodes.induct) (simp_all add: add_node_distinct)

lemma create_nodes_keys:
  "fst ` set (modules (create_nodes fa a)) = fst ` set (modules a) \<union> fst ` set fa"
  by (induction fa a rule: create_nodes.induct) (auto simp add: dom_update)

lemma create_nodes_distinct_keys:
  "distinct (map fst (modules a)) \<Longrightarrow> distinct (map fst (modules (create_nodes fa a)))"
  by (induction fa a rule: create_nodes.induct) (simp_all add: distinct_update)

subsection \<open>The second loop\<close>

lemma add_import_edges_edges:
  "set (g_edges (add_import_edges p imps keys mods g)) =
     set (g_edges g) \<union> {(p, r) | r. r \<in> set (resolved_targets imps keys) \<and> r \<in> set mods}"
  by (induction p imps keys mods g rule: add_import_edges.induct)
     (auto simp add: Let_def add_edge_edges set_resolved_targets)

lemma add_import_edges_nodes:
  "p \<in> set (g_nodes g) \<Longrightarrow> set mods \<subseteq> set (g_nodes g) \<Longrightarrow>
   set (g_nodes (add_import_edges p imps keys mods g)) = set (g_nodes g)"
proof (induction p imps keys mods g rule: add_import_edges.induct)
  case (1 p keys mods g)
  then show ?case by simp
next
  case (2 p i rest keys mods g)
  let ?r = "resolve_import i keys"
  show ?case
  proof (cases "?r \<noteq> [] \<and> ?r \<in> set mods")
    case True
    with 2 have same: "set (g_nodes (add_edge p ?r g)) = set (g_nodes g)"
      by (auto simp add: add_edge_nodes)
    with 2 True show ?thesis by (simp add: Let_def)
  next
    case False
    with 2 show ?thesis by (auto simp add: Let_def)
  qed
qed

lemma add_import_edges_distinct:
  "distinct (g_nodes g) \<Longrightarrow> distinct (g_nodes (add_import_edges p imps keys mods g))"
  "distinct (g_edges g) \<Longrightarrow> distinct (g_edges (add_import_edges p imps keys mods g))"
  by (induction p imps keys mods g rule: add_import_edges.induct)
     (simp_all add: Let_def add_edge_distinct_nodes add_edge_distinct_edges)

lemma create_edges_edges:
  "set (g_edges (create_edges ms keys mods g)) =
     set (g_edges g) \<union>
     {(p, r) | p m r. (p, m) \<in> set ms \<and> r \<in> set (resolved_targets (mi_imports m) keys) \<and> r \<in> set mods}"
  by (induction ms keys mods g rule: create_edges.induct)
     (auto simp add: add_import_edges_edges)

lemma create_edges_nodes:
  "fst ` set ms \<subseteq> set (g_nodes g) \<Longrightarrow> set mods \<subseteq> set (g_nodes g) \<Longrightarrow>
   set (g_nodes (create_edges ms keys mods g)) = set (g_nodes g)"
  by (induction ms keys mods g rule: create_edges.induct)
     (auto simp add: add_import_edges_nodes)

lemma create_edges_distinct:
  "distinct (g_nodes g) \<Longrightarrow> distinct (g_nodes (create_edges ms keys mods g))"
  "distinct (g_edges g) \<Longrightarrow> distinct (g_edges (create_edges ms keys mods g))"
  by (induction ms keys mods g rule: create_edges.induct)
     (simp_all add: add_import_edges_distinct)

subsection \<open>The third loop\<close>

lemma calculate_counts_keys: "map fst (calculate_counts ks g ms) = map fst ms"
proof (induction ks g ms rule: calculate_counts.induct)
  case (1 g ms)
  then show ?case by simp
next
  case (2 k rest g ms)
  have "map fst (AList.map_entry k f xs) = map fst xs" for f and xs :: "(string \<times> ModuleInfo) list"
    by (induction xs) auto
  with 2 show ?case by simp
qed

lemma calculate_counts_lookup:
  "map_of (calculate_counts ks g ms) p =
     map_option (\<lambda>m. if p \<in> set ks
                      then m\<lparr>mi_dependency_count := int (out_degree g p),
                             mi_dependent_count := int (in_degree g p)\<rparr>
                      else m) (map_of ms p)"
proof (induction ks g ms rule: calculate_counts.induct)
  case (1 g ms)
  then show ?case by (simp add: option.map_ident)
next
  case (2 k rest g ms)
  then show ?case
    by (cases "map_of ms p") (auto simp add: map_of_map_entry)
qed

lemma calculate_counts_imports:
  "map (\<lambda>(k, m). (k, mi_imports m)) (calculate_counts ks g ms) = map (\<lambda>(k, m). (k, mi_imports m)) ms"
proof (induction ks g ms rule: calculate_counts.induct)
  case (1 g ms)
  then show ?case by simp
next
  case (2 k rest g ms)
  have "map (\<lambda>(k, m). (k, mi_imports m)) (AList.map_entry k f xs) = map (\<lambda>(k, m). (k, mi_imports m)) xs"
    if "\<And>m. mi_imports (f m) = mi_imports m" for f and xs :: "(string \<times> ModuleInfo) list"
    using that by (induction xs) auto
  with 2 show ?case by simp
qed

lemma importers_projection:
  "importers p keys ms =
     map fst (filter (\<lambda>(q, imps). p \<in> set (resolved_targets imps keys))
                     (map (\<lambda>(k, m). (k, mi_imports m)) ms))"
  by (induction ms) (auto simp add: importers_def)

lemma importers_calculate_counts:
  "importers p keys (calculate_counts ks g ms) = importers p keys ms"
  by (simp add: importers_projection calculate_counts_imports)

lemma set_importers:
  "set (importers p keys ms) =
     {q. \<exists>m. (q, m) \<in> set ms \<and> p \<in> set (resolved_targets (mi_imports m) keys)}"
  by (force simp add: importers_def)

lemma distinct_importers: "distinct (map fst ms) \<Longrightarrow> distinct (importers p keys ms)"
  by (simp add: importers_def distinct_map_filter)

subsection \<open>Degrees\<close>

lemma length_filter_disjoint:
  "(\<And>x. x \<in> set xs \<Longrightarrow> \<not> (P x \<and> Q x)) \<Longrightarrow>
   length (filter P xs) + length (filter Q xs) = length (filter (\<lambda>x. P x \<or> Q x) xs)"
  by (induction xs) auto

lemma sum_degrees:
  "distinct ns \<Longrightarrow>
   (\<Sum>n\<leftarrow>ns. length (filter (\<lambda>e. f e = n) es)) = length (filter (\<lambda>e. f e \<in> set ns) es)"
proof (induction ns)
  case Nil
  then show ?case by simp
next
  case (Cons n ns)
  then have "length (filter (\<lambda>e. f e = n) es) + length (filter (\<lambda>e. f e \<in> set ns) es) =
      length (filter (\<lambda>e. f e = n \<or> f e \<in> set ns) es)"
    by (intro length_filter_disjoint) auto
  with Cons show ?case by simp
qed

lemma out_degree_card:
  "distinct (g_edges g) \<Longrightarrow> out_degree g p = card {r. (p, r) \<in> set (g_edges g)}"
proof -
  assume d: "distinct (g_edges g)"
  have "{e. fst e = p} \<inter> set (g_edges g) = (\<lambda>r. (p, r)) ` {r. (p, r) \<in> set (g_edges g)}"
    by auto
  moreover have "inj_on (\<lambda>r. (p, r)) {r. (p, r) \<in> set (g_edges g)}"
    by (simp add: inj_on_def)
  ultimately show ?thesis
    using d by (simp add: out_degree_def distinct_length_filter card_image)
qed

lemma in_degree_card:
  "distinct (g_edges g) \<Longrightarrow> in_degree g p = card {q. (q, p) \<in> set (g_edges g)}"
proof -
  assume d: "distinct (g_edges g)"
  have "{e. snd e = p} \<inter> set (g_edges g) = (\<lambda>q. (q, p)) ` {q. (q, p) \<in> set (g_edges g)}"
    by auto
  moreover have "inj_on (\<lambda>q. (q, p)) {q. (q, p) \<in> set (g_edges g)}"
    by (simp add: inj_on_def)
  ultimately show ?thesis
    using d by (simp add: in_degree_def distinct_length_filter card_image)
qed

subsection \<open>The graph of a new analyzer\<close>

lemma new_nodes_facts:
  "g_edges (dependency_graph (create_nodes fa new_analyzer)) = []"
  "set (g_nodes (dependency_graph (create_nodes fa new_analyzer))) = fst ` set fa"
  "distinct (g_nodes (dependency_graph (create_nodes fa new_analyzer)))"
  "fst ` set (modules (create_nodes fa new_analyzer)) = fst ` set fa"
  "distinct (map fst (modules (create_nodes fa new_analyzer)))"
  by (simp_all add: create_nodes_edges create_nodes_nodes create_nodes_distinct_nodes
      create_nodes_keys create_nodes_distinct_keys new_analyzer_def)

lemma built_graph:
  "dependency_graph (build_dependency_graph fa a) =
     create_edges (modules (create_nodes fa a)) (map fst fa) (map fst (modules (create_nodes fa a)))
       (dependency_graph (create_nodes fa a))"
  by (simp add: build_dependency_graph_def Let_def)

lemma built_modules:
  "modules (build_dependency_graph fa a) =
     calculate_counts (map fst (modules (create_nodes fa a)))
       (dependency_graph (build_dependency_graph fa a)) (modules (create_nodes fa a))"
  by (simp add: build_dependency_graph_def Let_def)

lemma built_nodes:
  "set (g_nodes (dependency_graph (build_dependency_graph fa new_analyzer))) = fst ` set fa"
  "distinct (g_nodes (dependency_graph (build_dependency_graph fa new_analyzer)))"
  by (simp_all add: built_graph create_edges_nodes create_edges_distinct new_nodes_facts)

lemma built_edges:
  "set (g_edges (dependency_graph (build_dependency_graph fa new_analyzer))) =
     {(p, r) | p m r. (p, m) \<in> set (modules (create_nodes fa new_analyzer))
                \<and> r \<in> set (resolved_targets (mi_imports m) (map fst fa))}"
  "distinct (g_edges (dependency_graph (build_dependency_graph fa new_analyzer)))"
proof -
  have "r \<in> set (map fst (modules (create_nodes fa new_analyzer)))"
    if "r \<in> set (resolved_targets imps (map fst fa))" for r imps
    using that resolved_targets_available [of imps "map fst fa"]
    by (auto simp add: new_nodes_facts)
  then show "set (g_edges (dependency_graph (build_dependency_graph fa new_analyzer))) =
     {(p, r) | p m r. (p, m) \<in> set (modules (create_nodes fa new_analyzer))
                \<and> r \<in> set (resolved_targets (mi_imports m) (map fst fa))}"
    by (auto simp add: built_graph create_edges_edges new_nodes_facts)
  show "distinct (g_edges (dependency_graph (build_dependency_graph fa new_analyzer)))"
    by (simp add: built_graph create_edges_distinct new_nodes_facts)
qed

lemma built_edges_closed:
  "(p, r) \<in> set (g_edges (dependency_graph (build_dependency_graph fa new_analyzer))) \<Longrightarrow>
   p \<in> fst ` set fa \<and> r \<in> fst ` set fa"
proof -
  assume "(p, r) \<in> set (g_edges (dependency_graph (build_dependency_graph fa new_analyzer)))"
  then obtain m where m: "(p, m) \<in> set (modules (create_nodes fa new_analyzer))"
    and r: "r \<in> set (resolved_targets (mi_imports m) (map fst fa))"
    by (auto simp add: built_edges)
  from m have "p \<in> fst ` set (modules (create_nodes fa new_analyzer))" by force
  then have "p \<in> fst ` set fa" by (simp only: new_nodes_facts)
  moreover from r resolved_targets_available have "r \<in> set (map fst fa)" by blast
  ultimately show ?thesis by simp
qed

lemma built_lookup:
  assumes "map_of (modules (build_dependency_graph fa new_analyzer)) p = Some m"
  shows "\<exists>m0. (p, m0) \<in> set (modules (create_nodes fa new_analyzer))
           \<and> m = m0\<lparr>mi_dependency_count :=
                        int (out_degree (dependency_graph (build_dependency_graph fa new_analyzer)) p),
                      mi_dependent_count :=
                        int (in_degree (dependency_graph (build_dependency_graph fa new_analyzer)) p)\<rparr>"
proof -
  let ?ms = "modules (create_nodes fa new_analyzer)"
  from assms obtain m0 where m0: "map_of ?ms p = Some m0"
    by (auto simp add: built_modules calculate_counts_lookup)
  then have mem: "(p, m0) \<in> set ?ms" by (rule map_of_SomeD)
  then have "p \<in> set (map fst ?ms)" by force
  with assms m0 have "m = m0\<lparr>mi_dependency_count :=
                        int (out_degree (dependency_graph (build_dependency_graph fa new_analyzer)) p),
                      mi_dependent_count :=
                        int (in_degree (dependency_graph (build_dependency_graph fa new_analyzer)) p)\<rparr>"
    by (simp add: built_modules calculate_counts_lookup)
  with mem show ?thesis by blast
qed

lemma built_lookup_node:
  "(\<exists>m. map_of (modules (build_dependency_graph fa new_analyzer)) p = Some m) \<longleftrightarrow> p \<in> fst ` set fa"
proof -
  have "(\<exists>m. map_of (modules (build_dependency_graph fa new_analyzer)) p = Some m) \<longleftrightarrow>
      p \<in> fst ` set (modules (build_dependency_graph fa new_analyzer))"
    using map_of_eq_None_iff [of "modules (build_dependency_graph fa new_analyzer)" p] by auto
  also have "fst ` set (modules (build_dependency_graph fa new_analyzer)) =
      set (map fst (modules (build_dependency_graph fa new_analyzer)))"
    by simp
  also have "\<dots> = fst ` set fa"
    unfolding built_modules calculate_counts_keys by (simp add: new_nodes_facts)
  finally show ?thesis .
qed

lemma built_successors:
  assumes "(p, m0) \<in> set (modules (create_nodes fa new_analyzer))"
  shows "{r. (p, r) \<in> set (g_edges (dependency_graph (build_dependency_graph fa new_analyzer)))} =
     set (resolved_targets (mi_imports m0) (map fst fa))"
proof -
  have uniq: "m = m0" if "(p, m) \<in> set (modules (create_nodes fa new_analyzer))" for m
    by (rule eq_key_imp_eq_value [OF new_nodes_facts(5) that assms])
  show ?thesis
  proof (intro set_eqI iffI)
    fix r
    assume "r \<in> {r. (p, r) \<in> set (g_edges (dependency_graph (build_dependency_graph fa new_analyzer)))}"
    then obtain m where "(p, m) \<in> set (modules (create_nodes fa new_analyzer))"
      and "r \<in> set (resolved_targets (mi_imports m) (map fst fa))"
      unfolding built_edges by blast
    with uniq show "r \<in> set (resolved_targets (mi_imports m0) (map fst fa))" by blast
  next
    fix r
    assume "r \<in> set (resolved_targets (mi_imports m0) (map fst fa))"
    with assms show "r \<in> {r. (p, r) \<in> set (g_edges (dependency_graph (build_dependency_graph fa new_analyzer)))}"
      unfolding built_edges by blast
  qed
qed

lemma built_predecessors:
  "{q. (q, p) \<in> set (g_edges (dependency_graph (build_dependency_graph fa new_analyzer)))} =
     set (importers p (map fst fa) (modules (build_dependency_graph fa new_analyzer)))"
  unfolding built_modules importers_calculate_counts
  by (auto simp add: built_edges set_importers)

lemma built_out_degree:
  assumes "map_of (modules (build_dependency_graph fa new_analyzer)) p = Some m"
  shows "out_degree (dependency_graph (build_dependency_graph fa new_analyzer)) p =
     length (resolved_targets (mi_imports m) (map fst fa))"
proof -
  from built_lookup [OF assms] obtain m0 where
    mem: "(p, m0) \<in> set (modules (create_nodes fa new_analyzer))" and
    imps: "mi_imports m = mi_imports m0"
    by auto
  have "distinct (resolved_targets (mi_imports m0) (map fst fa))"
    by (simp add: resolved_targets_def)
  then have "card (set (resolved_targets (mi_imports m0) (map fst fa))) =
      length (resolved_targets (mi_imports m0) (map fst fa))"
    by (rule distinct_card)
  with mem imps show ?thesis
    by (simp add: out_degree_card built_edges(2) built_successors)
qed

lemma built_in_degree:
  "in_degree (dependency_graph (build_dependency_graph fa new_analyzer)) p =
     length (importers p (map fst fa) (modules (build_dependency_graph fa new_analyzer)))"
proof -
  have "distinct (map fst (modules (build_dependency_graph fa new_analyzer)))"
    unfolding built_modules calculate_counts_keys by (rule new_nodes_facts)
  then have "distinct (importers p (map fst fa) (modules (build_dependency_graph fa new_analyzer)))"
    by (rule distinct_importers)
  then have "card (set (importers p (map fst fa) (modules (build_dependency_graph fa new_analyzer)))) =
      length (importers p (map fst fa) (modules (build_dependency_graph fa new_analyzer)))"
    by (rule distinct_card)
  then show ?thesis
    by (simp add: in_degree_card built_edges(2) built_predecessors)
qed

lemma built_degree_sums:
  "(\<Sum>n\<leftarrow>g_nodes (dependency_graph (build_dependency_graph fa new_analyzer)).
        out_degree (dependency_graph (build_dependency_graph fa new_analyzer)) n) =
     length (g_edges (dependency_graph (build_dependency_graph fa new_analyzer)))"
  "(\<Sum>n\<leftarrow>g_nodes (dependency_graph (build_dependency_graph fa new_analyzer)).
        in_degree (dependency_graph (build_dependency_graph fa new_analyzer)) n) =
     length (g_edges (dependency_graph (build_dependency_graph fa new_analyzer)))"
proof -
  let ?g = "dependency_graph (build_dependency_graph fa new_analyzer)"
  have closed: "fst e \<in> set (g_nodes ?g) \<and> snd e \<in> set (g_nodes ?g)" if "e \<in> set (g_edges ?g)" for e
    using that built_edges_closed [of "fst e" "snd e" fa] by (simp add: built_nodes)
  have "(\<Sum>n\<leftarrow>g_nodes ?g. out_degree ?g n) = length (filter (\<lambda>e. fst e \<in> set (g_nodes ?g)) (g_edges ?g))"
    unfolding out_degree_def by (rule sum_degrees) (rule built_nodes)
  also have "filter (\<lambda>e. fst e \<in> set (g_nodes ?g)) (g_edges ?g) = g_edges ?g"
    using closed by (simp add: filter_id_conv)
  finally show "(\<Sum>n\<leftarrow>g_nodes ?g. out_degree ?g n) = length (g_edges ?g)" .
  have "(\<Sum>n\<leftarrow>g_nodes ?g. in_degree ?g n) = length (filter (\<lambda>e. snd e \<in> set (g_nodes ?g)) (g_edges ?g))"
    unfolding in_degree_def by (rule sum_degrees) (rule built_nodes)
  also have "filter (\<lambda>e. snd e \<in> set (g_nodes ?g)) (g_edges ?g) = g_edges ?g"
    using closed by (simp add: filter_id_conv)
  finally show "(\<Sum>n\<leftarrow>g_nodes ?g. in_degree ?g n) = length (g_edges ?g)" .
qed

text \<open>
  The first call on a new analyzer. The nodes of the graph are exactly the keys of the
  supplied map of analyses, each once, and every edge has both endpoints among these
  keys: an edge from a file exists only for an import of that file that resolves to its
  target, an analyzed file.
\<close>

theorem build_dependency_graph_closed:
  "set (g_nodes (dependency_graph (build_dependency_graph fa new_analyzer))) = set (map fst fa)
   \<and> distinct (g_nodes (dependency_graph (build_dependency_graph fa new_analyzer)))
   \<and> (\<forall>e \<in> set (g_edges (dependency_graph (build_dependency_graph fa new_analyzer))).
         fst e \<in> set (map fst fa) \<and> snd e \<in> set (map fst fa)
         \<and> (\<exists>m. map_of (modules (build_dependency_graph fa new_analyzer)) (fst e) = Some m
                \<and> (\<exists>i \<in> set (mi_imports m). resolve_import i (map fst fa) = snd e)))"
proof (intro conjI ballI)
  show "set (g_nodes (dependency_graph (build_dependency_graph fa new_analyzer))) = set (map fst fa)"
    by (simp add: built_nodes)
  show "distinct (g_nodes (dependency_graph (build_dependency_graph fa new_analyzer)))"
    by (rule built_nodes)
next
  fix e
  assume e: "e \<in> set (g_edges (dependency_graph (build_dependency_graph fa new_analyzer)))"
  then have mem: "(fst e, snd e) \<in> set (g_edges (dependency_graph (build_dependency_graph fa new_analyzer)))"
    by simp
  from built_edges_closed [OF mem]
  show "fst e \<in> set (map fst fa)" and "snd e \<in> set (map fst fa)" by simp_all
  from built_edges_closed [OF mem] have "fst e \<in> fst ` set fa" ..
  then obtain m where m: "map_of (modules (build_dependency_graph fa new_analyzer)) (fst e) = Some m"
    unfolding built_lookup_node [symmetric] ..
  from built_lookup [OF m] obtain m0 where
    m0: "(fst e, m0) \<in> set (modules (create_nodes fa new_analyzer))" and
    imps: "mi_imports m = mi_imports m0"
    by auto
  from mem built_successors [OF m0] have "snd e \<in> set (resolved_targets (mi_imports m0) (map fst fa))"
    by blast
  then have "\<exists>i \<in> set (mi_imports m). resolve_import i (map fst fa) = snd e"
    unfolding imps set_resolved_targets by auto
  with m show "\<exists>m. map_of (modules (build_dependency_graph fa new_analyzer)) (fst e) = Some m
                \<and> (\<exists>i \<in> set (mi_imports m). resolve_import i (map fst fa) = snd e)"
    by blast
qed

theorem build_dependency_graph_closed_witness:
  "(''main.py'', ''simple.py'') \<in> set (g_edges (dependency_graph (build_dependency_graph
       [(''simple.py'', \<lparr>fa_file_path = ''simple.py'', fa_language = ''python'', fa_symbols = [],
            fa_imports = [], fa_total_lines = 1, fa_code_lines = 1\<rparr>),
        (''main.py'', \<lparr>fa_file_path = ''main.py'', fa_language = ''python'', fa_symbols = [],
            fa_imports = [''simple'', ''os''], fa_total_lines = 2, fa_code_lines = 2\<rparr>)]
       new_analyzer)))
   \<and> ''main.py'' \<in> set [''simple.py'', ''main.py'']
   \<and> ''simple.py'' \<in> set [''simple.py'', ''main.py'']"
proof -
  let ?fa = "[(''simple.py'', \<lparr>fa_file_path = ''simple.py'', fa_language = ''python'', fa_symbols = [],
            fa_imports = [], fa_total_lines = 1, fa_code_lines = 1\<rparr>),
        (''main.py'', \<lparr>fa_file_path = ''main.py'', fa_language = ''python'', fa_symbols = [],
            fa_imports = [''simple'', ''os''], fa_total_lines = 2, fa_code_lines = 2\<rparr>)]"
  have e: "(''main.py'', ''simple.py'') \<in> set (g_edges (dependency_graph (build_dependency_graph ?fa new_analyzer)))"
    by code_simp
  have keys: "map fst ?fa = [''simple.py'', ''main.py'']" by simp
  from build_dependency_graph_closed [of ?fa]
  have "\<forall>e \<in> set (g_edges (dependency_graph (build_dependency_graph ?fa new_analyzer))).
         fst e \<in> set (map fst ?fa) \<and> snd e \<in> set (map fst ?fa)
         \<and> (\<exists>m. map_of (modules (build_dependency_graph ?fa new_analyzer)) (fst e) = Some m
                \<and> (\<exists>i \<in> set (mi_imports m). resolve_import i (map fst ?fa) = snd e))"
    by (elim conjE)
  from bspec [OF this e] have "''main.py'' \<in> set (map fst ?fa)" and "''simple.py'' \<in> set (map fst ?fa)"
    by (simp_all only: fst_conv snd_conv)
  then have "''main.py'' \<in> set [''simple.py'', ''main.py'']" and "''simple.py'' \<in> set [''simple.py'', ''main.py'']"
    unfolding keys .
  with e show ?thesis by (intro conjI)
qed

text \<open>
  Claim C10. After \<^const>\<open>build_dependency_graph\<close> completes, the node set is exactly
  the set of keys of the supplied map, and every edge has both endpoints in that set.
  The method never clears \<^verbatim>\<open>self.dependency_graph\<close> and \<^verbatim>\<open>self.modules\<close>, and the
  tools call it on one analyzer at every run. On the second call below, for a
  repository that has lost \<^verbatim>\<open>b.py\<close> and the import of it, the supplied map has the
  single key \<^verbatim>\<open>a.py\<close>; the graph keeps the node \<^verbatim>\<open>b.py\<close> and the edge from
  \<^verbatim>\<open>a.py\<close> to it, and \<^verbatim>\<open>a.py\<close>, which imports nothing, has the dependency count 1.
\<close>

theorem build_dependency_graph_reused_analyzer:
  "build_dependency_graph
     [(''a.py'', \<lparr>fa_file_path = ''a.py'', fa_language = ''python'', fa_symbols = [],
         fa_imports = [], fa_total_lines = 1, fa_code_lines = 1\<rparr>)]
     (build_dependency_graph
        [(''a.py'', \<lparr>fa_file_path = ''a.py'', fa_language = ''python'', fa_symbols = [],
            fa_imports = [''b''], fa_total_lines = 1, fa_code_lines = 1\<rparr>),
         (''b.py'', \<lparr>fa_file_path = ''b.py'', fa_language = ''python'', fa_symbols = [],
            fa_imports = [], fa_total_lines = 1, fa_code_lines = 1\<rparr>)]
        new_analyzer)
   = \<lparr>dependency_graph = \<lparr>g_nodes = [''a.py'', ''b.py''], g_edges = [(''a.py'', ''b.py'')]\<rparr>,
      modules =
        [(''a.py'', \<lparr>mi_path = ''a.py'', mi_imports = [], mi_exported_symbols = [],
            mi_is_entry_point = False, mi_dependency_count = 1, mi_dependent_count = 0\<rparr>),
         (''b.py'', \<lparr>mi_path = ''b.py'', mi_imports = [], mi_exported_symbols = [],
            mi_is_entry_point = False, mi_dependency_count = 0, mi_dependent_count = 1\<rparr>)]\<rparr>"
  by code_simp

text \<open>
  The degrees after the first call on a new analyzer:
  for every node, \<^const>\<open>mi_dependency_count\<close> is its out-degree, the number of distinct
  targets its imports resolve to, and \<^const>\<open>mi_dependent_count\<close> is its in-degree, the
  number of nodes one of whose imports resolves to it, the node itself among them when
  one of its own imports resolves to its own path. The nodes are the keys of the
  dictionary of modules, and the out-degrees and the in-degrees both sum to the number
  of edges.
\<close>

theorem build_dependency_graph_degrees:
  "(\<forall>p m. map_of (modules (build_dependency_graph fa new_analyzer)) p = Some m \<longrightarrow>
       mi_dependency_count m = int (out_degree (dependency_graph (build_dependency_graph fa new_analyzer)) p)
     \<and> mi_dependency_count m = int (length (resolved_targets (mi_imports m) (map fst fa)))
     \<and> mi_dependent_count m = int (in_degree (dependency_graph (build_dependency_graph fa new_analyzer)) p)
     \<and> mi_dependent_count m =
         int (length (importers p (map fst fa) (modules (build_dependency_graph fa new_analyzer)))))
   \<and> (\<forall>p. (\<exists>m. map_of (modules (build_dependency_graph fa new_analyzer)) p = Some m) =
            (p \<in> set (g_nodes (dependency_graph (build_dependency_graph fa new_analyzer)))))
   \<and> (\<Sum>n\<leftarrow>g_nodes (dependency_graph (build_dependency_graph fa new_analyzer)).
          out_degree (dependency_graph (build_dependency_graph fa new_analyzer)) n) =
       length (g_edges (dependency_graph (build_dependency_graph fa new_analyzer)))
   \<and> (\<Sum>n\<leftarrow>g_nodes (dependency_graph (build_dependency_graph fa new_analyzer)).
          in_degree (dependency_graph (build_dependency_graph fa new_analyzer)) n) =
       length (g_edges (dependency_graph (build_dependency_graph fa new_analyzer)))"
proof (intro conjI allI impI)
  fix p m
  assume m: "map_of (modules (build_dependency_graph fa new_analyzer)) p = Some m"
  from built_lookup [OF m]
  show out: "mi_dependency_count m = int (out_degree (dependency_graph (build_dependency_graph fa new_analyzer)) p)"
    and inn: "mi_dependent_count m = int (in_degree (dependency_graph (build_dependency_graph fa new_analyzer)) p)"
    by auto
  from out show "mi_dependency_count m = int (length (resolved_targets (mi_imports m) (map fst fa)))"
    by (simp only: built_out_degree [OF m])
  from inn show "mi_dependent_count m =
         int (length (importers p (map fst fa) (modules (build_dependency_graph fa new_analyzer))))"
    by (simp only: built_in_degree)
next
  fix p
  show "(\<exists>m. map_of (modules (build_dependency_graph fa new_analyzer)) p = Some m) =
            (p \<in> set (g_nodes (dependency_graph (build_dependency_graph fa new_analyzer))))"
    by (simp only: built_lookup_node built_nodes)
qed (rule built_degree_sums)+

theorem build_dependency_graph_degrees_witness:
  "map_of (modules (build_dependency_graph
       [(''simple.py'', \<lparr>fa_file_path = ''simple.py'', fa_language = ''python'', fa_symbols = [],
            fa_imports = [], fa_total_lines = 1, fa_code_lines = 1\<rparr>),
        (''main.py'', \<lparr>fa_file_path = ''main.py'', fa_language = ''python'', fa_symbols = [],
            fa_imports = [''simple'', ''os'', ''simple''], fa_total_lines = 2, fa_code_lines = 2\<rparr>)]
       new_analyzer)) ''main.py''
     = Some \<lparr>mi_path = ''main.py'', mi_imports = [''simple'', ''os'', ''simple''],
               mi_exported_symbols = [], mi_is_entry_point = False,
               mi_dependency_count = 1, mi_dependent_count = 0\<rparr>
   \<and> (1::int) = int (length (resolved_targets [''simple'', ''os'', ''simple''] [''simple.py'', ''main.py'']))
   \<and> (0::int) = int (length (importers ''main.py'' [''simple.py'', ''main.py'']
        (modules (build_dependency_graph
       [(''simple.py'', \<lparr>fa_file_path = ''simple.py'', fa_language = ''python'', fa_symbols = [],
            fa_imports = [], fa_total_lines = 1, fa_code_lines = 1\<rparr>),
        (''main.py'', \<lparr>fa_file_path = ''main.py'', fa_language = ''python'', fa_symbols = [],
            fa_imports = [''simple'', ''os'', ''simple''], fa_total_lines = 2, fa_code_lines = 2\<rparr>)]
       new_analyzer))))"
proof -
  let ?fa = "[(''simple.py'', \<lparr>fa_file_path = ''simple.py'', fa_language = ''python'', fa_symbols = [],
            fa_imports = [], fa_total_lines = 1, fa_code_lines = 1\<rparr>),
        (''main.py'', \<lparr>fa_file_path = ''main.py'', fa_language = ''python'', fa_symbols = [],
            fa_imports = [''simple'', ''os'', ''simple''], fa_total_lines = 2, fa_code_lines = 2\<rparr>)]"
  let ?m = "\<lparr>mi_path = ''main.py'', mi_imports = [''simple'', ''os'', ''simple''],
               mi_exported_symbols = [], mi_is_entry_point = False,
               mi_dependency_count = 1, mi_dependent_count = 0\<rparr>"
  have h: "map_of (modules (build_dependency_graph ?fa new_analyzer)) ''main.py'' = Some ?m"
    by code_simp
  have keys: "map fst ?fa = [''simple.py'', ''main.py'']" by simp
  have v: "mi_dependency_count ?m = 1" "mi_dependent_count ?m = 0"
    "mi_imports ?m = [''simple'', ''os'', ''simple'']" by simp_all
  note t = build_dependency_graph_degrees [of ?fa, THEN conjunct1, THEN spec, THEN spec, THEN mp, OF h]
  from t have a: "mi_dependency_count ?m = int (length (resolved_targets (mi_imports ?m) (map fst ?fa)))"
    by (rule conjunct2 [THEN conjunct1])
  from t have b: "mi_dependent_count ?m =
         int (length (importers ''main.py'' (map fst ?fa) (modules (build_dependency_graph ?fa new_analyzer))))"
    by (rule conjunct2 [THEN conjunct2, THEN conjunct2])
  from a have a': "(1::int) = int (length (resolved_targets [''simple'', ''os'', ''simple''] [''simple.py'', ''main.py'']))"
    unfolding v keys .
  from b have b': "(0::int) = int (length (importers ''main.py'' [''simple.py'', ''main.py'']
        (modules (build_dependency_graph ?fa new_analyzer))))"
    unfolding v keys .
  from h a' b' show ?thesis by (intro conjI)
qed

text \<open>
  Claim C1. After \<^const>\<open>build_dependency_graph\<close> completes, the dependency count of a
  node is the number of its distinct resolved imports, and its dependent count is the
  number of other nodes whose imports resolve to it. The docstrings of the analyzer
  speak of other modules too. The edge loop does not test that an import resolves to
  another file: the root-level file \<^verbatim>\<open>logging.py\<close> imports \<^verbatim>\<open>logging\<close>, the import
  resolves to the file itself, and its dependent count is 1 while no other node imports
  it, so that it is no leaf module although no other module depends on it.
\<close>

theorem dependent_count_counts_self_import:
  "modules (build_dependency_graph
      [(''logging.py'', \<lparr>fa_file_path = ''logging.py'', fa_language = ''python'', fa_symbols = [],
          fa_imports = [''logging''], fa_total_lines = 1, fa_code_lines = 1\<rparr>),
       (''app.py'', \<lparr>fa_file_path = ''app.py'', fa_language = ''python'', fa_symbols = [],
          fa_imports = [''os''], fa_total_lines = 1, fa_code_lines = 1\<rparr>)]
      new_analyzer)
   = [(''logging.py'', \<lparr>mi_path = ''logging.py'', mi_imports = [''logging''],
         mi_exported_symbols = [], mi_is_entry_point = False,
         mi_dependency_count = 1, mi_dependent_count = 1\<rparr>),
      (''app.py'', \<lparr>mi_path = ''app.py'', mi_imports = [''os''],
         mi_exported_symbols = [], mi_is_entry_point = False,
         mi_dependency_count = 0, mi_dependent_count = 0\<rparr>)]
   \<and> filter (\<lambda>q. q \<noteq> ''logging.py'')
        (importers ''logging.py'' [''logging.py'', ''app.py'']
          (modules (build_dependency_graph
            [(''logging.py'', \<lparr>fa_file_path = ''logging.py'', fa_language = ''python'', fa_symbols = [],
                fa_imports = [''logging''], fa_total_lines = 1, fa_code_lines = 1\<rparr>),
             (''app.py'', \<lparr>fa_file_path = ''app.py'', fa_language = ''python'', fa_symbols = [],
                fa_imports = [''os''], fa_total_lines = 1, fa_code_lines = 1\<rparr>)]
            new_analyzer))) = []
   \<and> map mi_path (identify_leaf_modules (build_dependency_graph
      [(''logging.py'', \<lparr>fa_file_path = ''logging.py'', fa_language = ''python'', fa_symbols = [],
          fa_imports = [''logging''], fa_total_lines = 1, fa_code_lines = 1\<rparr>),
       (''app.py'', \<lparr>fa_file_path = ''app.py'', fa_language = ''python'', fa_symbols = [],
          fa_imports = [''os''], fa_total_lines = 1, fa_code_lines = 1\<rparr>)]
      new_analyzer)) = [''app.py'']"
  by code_simp

text \<open>
  What \<^const>\<open>resolve_import\<close> computes. The first candidate is the import with every
  dot replaced by a slash, followed by \<^verbatim>\<open>.py\<close>. The second and the third, only for an
  import that starts with \<^verbatim>\<open>./\<close> or \<^verbatim>\<open>../\<close>, are the import without every leading
  dot and slash, which is what \<^verbatim>\<open>lstrip("./")\<close> removes, followed by \<^verbatim>\<open>.js\<close> and
  by \<^verbatim>\<open>.ts\<close>. The first candidate among the known files is the result, and a result
  is always a known file. When no candidate is known the result is the empty string
  and the loop of \<^const>\<open>build_dependency_graph\<close> leaves the graph as it is for this
  import; a resolved import of a module adds its edge.
\<close>

theorem resolve_import_strategies:
  "resolve_import import_path keys =
     (if map (\<lambda>c. if c = CHR ''.'' then CHR ''/'' else c) import_path @ ''.py'' \<in> set keys
        then map (\<lambda>c. if c = CHR ''.'' then CHR ''/'' else c) import_path @ ''.py''
      else if (startswith import_path ''./'' \<or> startswith import_path ''../'')
                \<and> dropWhile (\<lambda>c. c = CHR ''.'' \<or> c = CHR ''/'') import_path @ ''.js'' \<in> set keys
        then dropWhile (\<lambda>c. c = CHR ''.'' \<or> c = CHR ''/'') import_path @ ''.js''
      else if (startswith import_path ''./'' \<or> startswith import_path ''../'')
                \<and> dropWhile (\<lambda>c. c = CHR ''.'' \<or> c = CHR ''/'') import_path @ ''.ts'' \<in> set keys
        then dropWhile (\<lambda>c. c = CHR ''.'' \<or> c = CHR ''/'') import_path @ ''.ts''
      else [])
   \<and> (resolve_import import_path keys \<noteq> [] \<longrightarrow> resolve_import import_path keys \<in> set keys)
   \<and> (resolve_import import_path keys = [] \<longrightarrow>
        add_import_edges file_path [import_path] keys mods g = g)
   \<and> (resolve_import import_path keys \<noteq> [] \<and> resolve_import import_path keys \<in> set mods \<longrightarrow>
        add_import_edges file_path [import_path] keys mods g =
          add_edge file_path (resolve_import import_path keys) g)"
proof (intro conjI impI)
  show "resolve_import import_path keys =
     (if map (\<lambda>c. if c = CHR ''.'' then CHR ''/'' else c) import_path @ ''.py'' \<in> set keys
        then map (\<lambda>c. if c = CHR ''.'' then CHR ''/'' else c) import_path @ ''.py''
      else if (startswith import_path ''./'' \<or> startswith import_path ''../'')
                \<and> dropWhile (\<lambda>c. c = CHR ''.'' \<or> c = CHR ''/'') import_path @ ''.js'' \<in> set keys
        then dropWhile (\<lambda>c. c = CHR ''.'' \<or> c = CHR ''/'') import_path @ ''.js''
      else if (startswith import_path ''./'' \<or> startswith import_path ''../'')
                \<and> dropWhile (\<lambda>c. c = CHR ''.'' \<or> c = CHR ''/'') import_path @ ''.ts'' \<in> set keys
        then dropWhile (\<lambda>c. c = CHR ''.'' \<or> c = CHR ''/'') import_path @ ''.ts''
      else [])"
    by (simp add: resolve_import_def potential_paths_def Let_def str_replace_char
        lstrip_chars_dot_slash)
next
  assume "resolve_import import_path keys \<noteq> []"
  then show "resolve_import import_path keys \<in> set keys"
    by (rule resolve_import_available)
next
  assume "resolve_import import_path keys = []"
  then show "add_import_edges file_path [import_path] keys mods g = g"
    by (simp add: Let_def)
next
  assume "resolve_import import_path keys \<noteq> [] \<and> resolve_import import_path keys \<in> set mods"
  then show "add_import_edges file_path [import_path] keys mods g =
          add_edge file_path (resolve_import import_path keys) g"
    by (simp add: Let_def)
qed

theorem resolve_import_strategies_witness:
  "resolve_import ''os.path'' [''main.py'', ''simple.py''] = []
   \<and> add_import_edges ''main.py'' [''os.path''] [''main.py'', ''simple.py''] [''main.py'', ''simple.py'']
         \<lparr>g_nodes = [''main.py'', ''simple.py''], g_edges = []\<rparr>
       = \<lparr>g_nodes = [''main.py'', ''simple.py''], g_edges = []\<rparr>
   \<and> resolve_import ''./utils/helpers'' [''main.js'', ''utils/helpers.ts'', ''utils/helpers.js'']
       = ''utils/helpers.js''
   \<and> ''utils/helpers.js'' \<in> set [''main.js'', ''utils/helpers.ts'', ''utils/helpers.js'']
   \<and> add_import_edges ''main.js'' [''./utils/helpers'']
         [''main.js'', ''utils/helpers.ts'', ''utils/helpers.js'']
         [''main.js'', ''utils/helpers.ts'', ''utils/helpers.js'']
         \<lparr>g_nodes = [''main.js'', ''utils/helpers.ts'', ''utils/helpers.js''], g_edges = []\<rparr>
       = add_edge ''main.js'' ''utils/helpers.js''
         \<lparr>g_nodes = [''main.js'', ''utils/helpers.ts'', ''utils/helpers.js''], g_edges = []\<rparr>"
proof -
  let ?k1 = "[''main.py'', ''simple.py'']"
  let ?g1 = "\<lparr>g_nodes = [''main.py'', ''simple.py''], g_edges = []\<rparr>"
  let ?k2 = "[''main.js'', ''utils/helpers.ts'', ''utils/helpers.js'']"
  let ?g2 = "\<lparr>g_nodes = [''main.js'', ''utils/helpers.ts'', ''utils/helpers.js''], g_edges = []\<rparr>"
  have none: "resolve_import ''os.path'' ?k1 = []" by code_simp
  have some: "resolve_import ''./utils/helpers'' ?k2 = ''utils/helpers.js''" by code_simp
  have ne: "resolve_import ''./utils/helpers'' ?k2 \<noteq> []" unfolding some by simp
  note t1 = resolve_import_strategies [of "''os.path''" ?k1 "''main.py''" ?k1 ?g1]
  note t2 = resolve_import_strategies [of "''./utils/helpers''" ?k2 "''main.js''" ?k2 ?g2]
  from t1 [THEN conjunct2, THEN conjunct2, THEN conjunct1, THEN mp, OF none]
  have dropped: "add_import_edges ''main.py'' [''os.path''] ?k1 ?k1 ?g1 = ?g1" .
  from t2 [THEN conjunct2, THEN conjunct1, THEN mp, OF ne]
  have avail: "''utils/helpers.js'' \<in> set ?k2" unfolding some .
  from avail have both: "resolve_import ''./utils/helpers'' ?k2 \<noteq> []
      \<and> resolve_import ''./utils/helpers'' ?k2 \<in> set ?k2"
    unfolding some by simp
  from t2 [THEN conjunct2, THEN conjunct2, THEN conjunct2, THEN mp, OF both]
  have added: "add_import_edges ''main.js'' [''./utils/helpers''] ?k2 ?k2 ?g2 =
      add_edge ''main.js'' ''utils/helpers.js'' ?g2"
    unfolding some .
  from none dropped some avail added show ?thesis by (intro conjI)
qed

text \<open>
  Claim C2. Resolution tries two strategies in order, the dotted path turned into a
  slash path plus \<^verbatim>\<open>.py\<close>, then, for a relative import, the import without its
  relative prefix plus a script extension; the first known candidate wins, and an
  import with no known candidate is dropped. The comment of the source gives the
  second strategy as \<^verbatim>\<open>./utils/helpers -> utils/helpers.js\<close>. The source strips with
  \<^verbatim>\<open>lstrip("./")\<close>, which removes every leading dot and slash and not the prefix
  \<^verbatim>\<open>./\<close> alone: for the import \<^verbatim>\<open>./.eslintrc\<close> of \<^verbatim>\<open>main.js\<close> the candidate is
  \<^verbatim>\<open>eslintrc.js\<close>, the known file \<^verbatim>\<open>.eslintrc.js\<close> is not found, and the import is
  dropped: the graph has no edge. The imports \<^verbatim>\<open>./utils/helpers\<close> and
  \<^verbatim>\<open>src.utils.helpers\<close> resolve as the claim says.
\<close>

theorem resolve_import_dot_file_dropped:
  "potential_paths ''./.eslintrc'' = [''///eslintrc.py'', ''eslintrc.js'', ''eslintrc.ts'']
   \<and> resolve_import ''./.eslintrc'' [''main.js'', ''.eslintrc.js''] = []
   \<and> ''./'' @ ''.eslintrc'' = ''./.eslintrc''
   \<and> ''.eslintrc'' @ ''.js'' \<in> set [''main.js'', ''.eslintrc.js'']
   \<and> g_edges (dependency_graph (build_dependency_graph
        [(''main.js'', \<lparr>fa_file_path = ''main.js'', fa_language = ''javascript'', fa_symbols = [],
            fa_imports = [''./.eslintrc''], fa_total_lines = 1, fa_code_lines = 1\<rparr>),
         (''.eslintrc.js'', \<lparr>fa_file_path = ''.eslintrc.js'', fa_language = ''javascript'',
            fa_symbols = [], fa_imports = [], fa_total_lines = 1, fa_code_lines = 1\<rparr>)]
        new_analyzer)) = []
   \<and> resolve_import ''./utils/helpers'' [''main.js'', ''utils/helpers.js''] = ''utils/helpers.js''
   \<and> resolve_import ''src.utils.helpers'' [''main.py'', ''src/utils/helpers.py'']
       = ''src/utils/helpers.py''"
  by code_simp

text \<open>
  Claim C7. For a node of the graph built on a new analyzer the dictionary of modules
  has an entry, so no KeyError arises: when the centrality computation returns, the
  score is the minimum of 100 and centrality * 50 + min(dependent_count * 5, 50); when
  it raises, the score is dependent_count * 10, with no cap. For a path that is no node
  the score is 0, whatever the centrality computation would do.
\<close>

theorem importance_score_of_node:
  "(file_path \<in> set (g_nodes (dependency_graph (build_dependency_graph fa new_analyzer))) \<longrightarrow>
      (\<exists>m. map_of (modules (build_dependency_graph fa new_analyzer)) file_path = Some m
         \<and> get_module_importance_score (build_dependency_graph fa new_analyzer) (Inr centrality) file_path =
             Inr (min 100 ((case centrality file_path of None \<Rightarrow> 0 | Some c \<Rightarrow> c) * 50
                           + real_of_int (min (mi_dependent_count m * 5) 50)))
         \<and> get_module_importance_score (build_dependency_graph fa new_analyzer) (Inl e) file_path =
             Inr (real_of_int (mi_dependent_count m * 10))))
   \<and> (file_path \<notin> set (g_nodes (dependency_graph (build_dependency_graph fa new_analyzer))) \<longrightarrow>
        get_module_importance_score (build_dependency_graph fa new_analyzer) r file_path = Inr 0)"
proof (intro conjI impI)
  assume node: "file_path \<in> set (g_nodes (dependency_graph (build_dependency_graph fa new_analyzer)))"
  then have "file_path \<in> fst ` set fa" by (simp only: built_nodes)
  then obtain m where m: "map_of (modules (build_dependency_graph fa new_analyzer)) file_path = Some m"
    unfolding built_lookup_node [symmetric] ..
  from node m have "get_module_importance_score (build_dependency_graph fa new_analyzer) (Inr centrality) file_path =
             Inr (min 100 ((case centrality file_path of None \<Rightarrow> 0 | Some c \<Rightarrow> c) * 50
                           + real_of_int (min (mi_dependent_count m * 5) 50)))"
    by (simp add: get_module_importance_score_def importance_try_block_def modules_lookup_def
        Let_def min.commute)
  moreover from node m have "get_module_importance_score (build_dependency_graph fa new_analyzer) (Inl e) file_path =
             Inr (real_of_int (mi_dependent_count m * 10))"
    by (simp add: get_module_importance_score_def importance_try_block_def modules_lookup_def)
  ultimately show "\<exists>m. map_of (modules (build_dependency_graph fa new_analyzer)) file_path = Some m
         \<and> get_module_importance_score (build_dependency_graph fa new_analyzer) (Inr centrality) file_path =
             Inr (min 100 ((case centrality file_path of None \<Rightarrow> 0 | Some c \<Rightarrow> c) * 50
                           + real_of_int (min (mi_dependent_count m * 5) 50)))
         \<and> get_module_importance_score (build_dependency_graph fa new_analyzer) (Inl e) file_path =
             Inr (real_of_int (mi_dependent_count m * 10))"
    using m by blast
next
  assume "file_path \<notin> set (g_nodes (dependency_graph (build_dependency_graph fa new_analyzer)))"
  then show "get_module_importance_score (build_dependency_graph fa new_analyzer) r file_path = Inr 0"
    by (simp add: get_module_importance_score_def)
qed

theorem importance_score_of_node_witness:
  "''simple.py'' \<in> set (g_nodes (dependency_graph (build_dependency_graph
       [(''simple.py'', \<lparr>fa_file_path = ''simple.py'', fa_language = ''python'', fa_symbols = [],
            fa_imports = [], fa_total_lines = 1, fa_code_lines = 1\<rparr>),
        (''main.py'', \<lparr>fa_file_path = ''main.py'', fa_language = ''python'', fa_symbols = [],
            fa_imports = [''simple''], fa_total_lines = 2, fa_code_lines = 2\<rparr>)]
       new_analyzer)))
   \<and> get_module_importance_score (build_dependency_graph
       [(''simple.py'', \<lparr>fa_file_path = ''simple.py'', fa_language = ''python'', fa_symbols = [],
            fa_imports = [], fa_total_lines = 1, fa_code_lines = 1\<rparr>),
        (''main.py'', \<lparr>fa_file_path = ''main.py'', fa_language = ''python'', fa_symbols = [],
            fa_imports = [''simple''], fa_total_lines = 2, fa_code_lines = 2\<rparr>)]
       new_analyzer) (Inr [''simple.py'' \<mapsto> 1 / 2, ''main.py'' \<mapsto> 0]) ''simple.py'' = Inr 30
   \<and> get_module_importance_score (build_dependency_graph
       [(''simple.py'', \<lparr>fa_file_path = ''simple.py'', fa_language = ''python'', fa_symbols = [],
            fa_imports = [], fa_total_lines = 1, fa_code_lines = 1\<rparr>),
        (''main.py'', \<lparr>fa_file_path = ''main.py'', fa_language = ''python'', fa_symbols = [],
            fa_imports = [''simple''], fa_total_lines = 2, fa_code_lines = 2\<rparr>)]
       new_analyzer) (Inl ValueError) ''simple.py'' = Inr 10
   \<and> ''setup.py'' \<notin> set (g_nodes (dependency_graph (build_dependency_graph
       [(''simple.py'', \<lparr>fa_file_path = ''simple.py'', fa_language = ''python'', fa_symbols = [],
            fa_imports = [], fa_total_lines = 1, fa_code_lines = 1\<rparr>),
        (''main.py'', \<lparr>fa_file_path = ''main.py'', fa_language = ''python'', fa_symbols = [],
            fa_imports = [''simple''], fa_total_lines = 2, fa_code_lines = 2\<rparr>)]
       new_analyzer)))
   \<and> get_module_importance_score (build_dependency_graph
       [(''simple.py'', \<lparr>fa_file_path = ''simple.py'', fa_language = ''python'', fa_symbols = [],
            fa_imports = [], fa_total_lines = 1, fa_code_lines = 1\<rparr>),
        (''main.py'', \<lparr>fa_file_path = ''main.py'', fa_language = ''python'', fa_symbols = [],
            fa_imports = [''simple''], fa_total_lines = 2, fa_code_lines = 2\<rparr>)]
       new_analyzer) (Inl ValueError) ''setup.py'' = Inr 0"
proof -
  let ?fa = "[(''simple.py'', \<lparr>fa_file_path = ''simple.py'', fa_language = ''python'', fa_symbols = [],
            fa_imports = [], fa_total_lines = 1, fa_code_lines = 1\<rparr>),
        (''main.py'', \<lparr>fa_file_path = ''main.py'', fa_language = ''python'', fa_symbols = [],
            fa_imports = [''simple''], fa_total_lines = 2, fa_code_lines = 2\<rparr>)]"
  let ?a = "build_dependency_graph ?fa new_analyzer"
  let ?c = "[''simple.py'' \<mapsto> 1 / 2, ''main.py'' \<mapsto> (0::real)]"
  let ?m = "\<lparr>mi_path = ''simple.py'', mi_imports = [], mi_exported_symbols = [],
             mi_is_entry_point = False, mi_dependency_count = 0, mi_dependent_count = 1\<rparr>"
  have node: "''simple.py'' \<in> set (g_nodes (dependency_graph ?a))" by code_simp
  have no_node: "''setup.py'' \<notin> set (g_nodes (dependency_graph ?a))" by code_simp
  have look: "map_of (modules ?a) ''simple.py'' = Some ?m" by code_simp
  from importance_score_of_node [of "''simple.py''" ?fa ?c ValueError, THEN conjunct1, THEN mp, OF node]
  obtain m where m: "map_of (modules ?a) ''simple.py'' = Some m"
    and ok: "get_module_importance_score ?a (Inr ?c) ''simple.py'' =
             Inr (min 100 ((case ?c ''simple.py'' of None \<Rightarrow> 0 | Some c \<Rightarrow> c) * 50
                           + real_of_int (min (mi_dependent_count m * 5) 50)))"
    and fail: "get_module_importance_score ?a (Inl ValueError) ''simple.py'' =
             Inr (real_of_int (mi_dependent_count m * 10))"
    by blast
  from m look have meq: "m = ?m" by simp
  have ok': "get_module_importance_score ?a (Inr ?c) ''simple.py'' = Inr 30"
    unfolding ok meq by simp
  have fail': "get_module_importance_score ?a (Inl ValueError) ''simple.py'' = Inr 10"
    unfolding fail meq by simp
  from importance_score_of_node [of "''setup.py''" ?fa _ _ "Inl ValueError", THEN conjunct2, THEN mp, OF no_node]
  have zero: "get_module_importance_score ?a (Inl ValueError) ''setup.py'' = Inr 0" .
  from node ok' fail' no_node zero show ?thesis by (intro conjI)
qed

section \<open>Properties of the relevance of a file\<close>

text \<open>
  \<^const>\<open>str_contains\<close> is the substring test: the second string stands somewhere in
  the first.
\<close>

lemma str_contains_iff: "str_contains s sub \<longleftrightarrow> (\<exists>pre post. s = pre @ sub @ post)"
proof (induction s)
  case Nil
  then show ?case by auto
next
  case (Cons c cs)
  have "startswith (c # cs) sub \<longleftrightarrow> (\<exists>post. c # cs = sub @ post)"
    unfolding startswith_def by (metis append_eq_conv_conj append_take_drop_id)
  moreover have "(\<exists>pre post. c # cs = pre @ sub @ post) \<longleftrightarrow>
      (\<exists>post. c # cs = sub @ post) \<or> (\<exists>pre post. cs = pre @ sub @ post)"
  proof
    assume "\<exists>pre post. c # cs = pre @ sub @ post"
    then obtain pre post where e: "c # cs = pre @ sub @ post" by blast
    show "(\<exists>post. c # cs = sub @ post) \<or> (\<exists>pre post. cs = pre @ sub @ post)"
    proof (cases pre)
      case Nil
      with e show ?thesis by auto
    next
      case (Cons a pre')
      with e have "cs = pre' @ sub @ post" by simp
      then show ?thesis by blast
    qed
  next
    assume "(\<exists>post. c # cs = sub @ post) \<or> (\<exists>pre post. cs = pre @ sub @ post)"
    then show "\<exists>pre post. c # cs = pre @ sub @ post"
    proof
      assume "\<exists>post. c # cs = sub @ post"
      then obtain post where "c # cs = [] @ sub @ post" by auto
      then show ?thesis by blast
    next
      assume "\<exists>pre post. cs = pre @ sub @ post"
      then obtain pre post where "c # cs = (c # pre) @ sub @ post" by auto
      then show ?thesis by blast
    qed
  qed
  ultimately show ?case using Cons by simp
qed

lemma score_keywords_mono: "0 \<le> w \<Longrightarrow> s \<le> score_keywords w ks t s"
proof (induction ks arbitrary: s)
  case Nil
  then show ?case by simp
next
  case (Cons k ks)
  from Cons.IH [OF Cons.prems, of "if str_contains t k then s + w else s"] Cons.prems
  show ?case by (simp split: if_splits)
qed

lemma score_keywords_pos:
  "0 < w \<Longrightarrow> 0 \<le> s \<Longrightarrow>
   0 < score_keywords w ks t s \<longleftrightarrow> 0 < s \<or> (\<exists>k \<in> set ks. str_contains t k)"
proof (induction ks arbitrary: s)
  case Nil
  then show ?case by simp
next
  case (Cons k ks)
  show ?case
  proof (cases "str_contains t k")
    case True
    from Cons.prems have "0 < s + w" by simp
    also have "s + w \<le> score_keywords w ks t (s + w)"
      using Cons.prems by (intro score_keywords_mono) simp
    finally show ?thesis using True by simp
  next
    case False
    with Cons show ?thesis by simp
  qed
qed

lemma score_symbols_pos:
  "0 \<le> s \<Longrightarrow>
   0 < score_symbols ks syms s \<longleftrightarrow>
     0 < s \<or> (\<exists>k \<in> set ks. \<exists>y \<in> set syms. str_contains (str_lower (sym_name y)) k)"
proof (induction syms arbitrary: s)
  case Nil
  then show ?case by simp
next
  case (Cons y syms)
  have "0 \<le> score_keywords 5 ks (str_lower (sym_name y)) s"
    using Cons.prems score_keywords_mono [of 5 s ks "str_lower (sym_name y)"] by simp
  from Cons.IH [OF this] Cons.prems show ?case
    by (auto simp add: score_keywords_pos)
qed

lemma match_score_pos:
  "0 < match_score ks file_path analysis \<longleftrightarrow>
     (\<exists>k \<in> set ks. str_contains (str_lower file_path) k
        \<or> (\<exists>y \<in> set (fa_symbols analysis). str_contains (str_lower (sym_name y)) k))"
proof -
  have "0 \<le> score_keywords 10 ks (str_lower file_path) 0"
    using score_keywords_mono [of 10 0 ks "str_lower file_path"] by simp
  then show ?thesis
    unfolding match_score_def by (auto simp add: score_symbols_pos score_keywords_pos)
qed

text \<open>
  Claim C5, as the code has it. The two tools select differently. The learning-path
  tool selects a file exactly when some whitespace-delimited word of the lower-cased
  query, stop words included, occurs in the lower-cased path; symbol names are not
  consulted. The entry-point tool selects a file exactly when some keyword of the
  lower-cased query occurs in the lower-cased path or in a lower-cased symbol name of
  the file, where the keywords are the words that are no stop word and longer than two
  characters, stripped of the punctuation \<^verbatim>\<open>,.!?\<close> at both ends.
\<close>

theorem relevant_files_by_tool:
  "(file_path \<in> set (learning_path_relevant_files area fa)) =
     (file_path \<in> set (map fst fa)
      \<and> (\<exists>k \<in> set (split_ws (str_lower area)). str_contains (str_lower file_path) k))
   \<and> (file_path \<in> set (suggested_files task fa)) =
     (\<exists>analysis. (file_path, analysis) \<in> set fa
        \<and> (\<exists>k \<in> set (extract_keywords (str_lower task)).
              str_contains (str_lower file_path) k
              \<or> (\<exists>y \<in> set (fa_symbols analysis). str_contains (str_lower (sym_name y)) k)))
   \<and> (k \<in> set (extract_keywords text)) =
     (\<exists>w \<in> set (split_ws text). w \<notin> set stop_words \<and> 2 < length w \<and> k = strip_chars w '',.!?'')"
proof (intro conjI)
  show "(file_path \<in> set (learning_path_relevant_files area fa)) =
     (file_path \<in> set (map fst fa)
      \<and> (\<exists>k \<in> set (split_ws (str_lower area)). str_contains (str_lower file_path) k))"
    by (simp add: learning_path_relevant_files_def find_relevant_files_def Let_def list_ex_iff)
  show "(file_path \<in> set (suggested_files task fa)) =
     (\<exists>analysis. (file_path, analysis) \<in> set fa
        \<and> (\<exists>k \<in> set (extract_keywords (str_lower task)).
              str_contains (str_lower file_path) k
              \<or> (\<exists>y \<in> set (fa_symbols analysis). str_contains (str_lower (sym_name y)) k)))"
    by (force simp add: suggested_files_def Let_def match_score_pos)
  show "(k \<in> set (extract_keywords text)) =
     (\<exists>w \<in> set (split_ws text). w \<notin> set stop_words \<and> 2 < length w \<and> k = strip_chars w '',.!?'')"
    by (auto simp add: extract_keywords_def Let_def)
qed

theorem relevant_files_by_tool_witness:
  "''src/auth.py'' \<in> set (learning_path_relevant_files ''Auth flow''
        [(''src/auth.py'', \<lparr>fa_file_path = ''src/auth.py'', fa_language = ''python'',
            fa_symbols = [], fa_imports = [], fa_total_lines = 1, fa_code_lines = 1\<rparr>)])
   \<and> ''src/views.py'' \<in> set (suggested_files ''Fix the login bug!''
        [(''src/views.py'', \<lparr>fa_file_path = ''src/views.py'', fa_language = ''python'',
            fa_symbols = [\<lparr>sym_name = ''login_user'', sym_type = ''function'',
               sym_file_path = ''src/views.py'', sym_line_start = 1, sym_line_end = 1,
               sym_docstring = None, sym_complexity = 0, sym_is_public = True\<rparr>],
            fa_imports = [], fa_total_lines = 2, fa_code_lines = 2\<rparr>)])
   \<and> extract_keywords ''fix the login bug!'' = [''login'', ''bug'']"
proof -
  let ?fa1 = "[(''src/auth.py'', \<lparr>fa_file_path = ''src/auth.py'', fa_language = ''python'',
            fa_symbols = [], fa_imports = [], fa_total_lines = 1, fa_code_lines = 1\<rparr>)]"
  let ?sym = "\<lparr>sym_name = ''login_user'', sym_type = ''function'',
               sym_file_path = ''src/views.py'', sym_line_start = 1, sym_line_end = 1,
               sym_docstring = None, sym_complexity = 0, sym_is_public = True\<rparr>"
  let ?an = "\<lparr>fa_file_path = ''src/views.py'', fa_language = ''python'',
            fa_symbols = [?sym], fa_imports = [], fa_total_lines = 2, fa_code_lines = 2\<rparr>"
  let ?fa2 = "[(''src/views.py'', ?an)]"
  have k1: "''auth'' \<in> set (split_ws (str_lower ''Auth flow''))" by code_simp
  have c1: "str_contains (str_lower ''src/auth.py'') ''auth''" by code_simp
  have m1: "''src/auth.py'' \<in> set (map fst ?fa1)" by simp
  from m1 k1 c1 have r1: "''src/auth.py'' \<in> set (map fst ?fa1)
      \<and> (\<exists>k \<in> set (split_ws (str_lower ''Auth flow'')). str_contains (str_lower ''src/auth.py'') k)"
    by blast
  have a: "''src/auth.py'' \<in> set (learning_path_relevant_files ''Auth flow'' ?fa1)"
    by (rule relevant_files_by_tool [THEN conjunct1, THEN iffD2, OF r1])
  have kw: "extract_keywords (str_lower ''Fix the login bug!'') = [''login'', ''bug'']" by code_simp
  have kw': "extract_keywords ''fix the login bug!'' = [''login'', ''bug'']" by code_simp
  have k2: "''login'' \<in> set (extract_keywords (str_lower ''Fix the login bug!''))"
    unfolding kw by simp
  have c2: "str_contains (str_lower (sym_name ?sym)) ''login''" by code_simp
  have s2: "?sym \<in> set (fa_symbols ?an)" by simp
  have m2: "(''src/views.py'', ?an) \<in> set ?fa2" by simp
  have "\<exists>y \<in> set (fa_symbols ?an). str_contains (str_lower (sym_name y)) ''login''"
    by (rule bexI [where P = "\<lambda>y. str_contains (str_lower (sym_name y)) ''login''", OF c2 s2])
  with k2 m2 have r2: "\<exists>analysis. (''src/views.py'', analysis) \<in> set ?fa2
        \<and> (\<exists>k \<in> set (extract_keywords (str_lower ''Fix the login bug!'')).
              str_contains (str_lower ''src/views.py'') k
              \<or> (\<exists>y \<in> set (fa_symbols analysis). str_contains (str_lower (sym_name y)) k))"
    by blast
  have b: "''src/views.py'' \<in> set (suggested_files ''Fix the login bug!'' ?fa2)"
    by (rule relevant_files_by_tool [THEN conjunct2, THEN conjunct1, THEN iffD2, OF r2])
  from a b kw' show ?thesis by (intro conjI)
qed

text \<open>
  Claim C5 as stated fails for both tools. The learning-path tool does not select a
  file whose only match is a symbol name, and selects \<^verbatim>\<open>theme.py\<close> for the stop word
  \<^verbatim>\<open>the\<close>; the entry-point tool drops the two-letter keyword \<^verbatim>\<open>ui\<close> and so does not
  select \<^verbatim>\<open>ui.py\<close>.
\<close>

theorem relevant_files_counterexample:
  "spec_relevant ''login'' ''src/views.py'' [''login_user'']
   \<and> ''src/views.py'' \<notin> set (learning_path_relevant_files ''login''
        [(''src/views.py'', \<lparr>fa_file_path = ''src/views.py'', fa_language = ''python'',
            fa_symbols = [\<lparr>sym_name = ''login_user'', sym_type = ''function'',
               sym_file_path = ''src/views.py'', sym_line_start = 1, sym_line_end = 1,
               sym_docstring = None, sym_complexity = 0, sym_is_public = True\<rparr>],
            fa_imports = [], fa_total_lines = 2, fa_code_lines = 2\<rparr>)])
   \<and> \<not> spec_relevant ''the'' ''theme.py'' []
   \<and> ''theme.py'' \<in> set (learning_path_relevant_files ''the''
        [(''theme.py'', \<lparr>fa_file_path = ''theme.py'', fa_language = ''python'',
            fa_symbols = [], fa_imports = [], fa_total_lines = 1, fa_code_lines = 1\<rparr>)])
   \<and> spec_relevant ''ui'' ''ui.py'' []
   \<and> ''ui.py'' \<notin> set (suggested_files ''ui''
        [(''ui.py'', \<lparr>fa_file_path = ''ui.py'', fa_language = ''python'',
            fa_symbols = [], fa_imports = [], fa_total_lines = 1, fa_code_lines = 1\<rparr>)])"
  by code_simp

section \<open>Properties of the git analyzer\<close>

text \<open>The digits of a string are those of its stripped form, and \<^verbatim>\<open>int\<close> refuses a string
  with more digits than the limit of the interpreter.\<close>

lemma py_int_digits_strip:
  "filter is_digit (rev (dropWhile is_int_space (rev (dropWhile is_int_space s)))) = filter is_digit s"
proof -
  have a: "filter is_digit (dropWhile is_int_space xs) = filter is_digit xs" for xs
    by (induction xs) (auto simp add: is_digit_def is_int_space_def)
  have "filter is_digit (rev (dropWhile is_int_space (rev (dropWhile is_int_space s))))
        = rev (filter is_digit (dropWhile is_int_space (rev (dropWhile is_int_space s))))"
    by (simp add: rev_filter)
  also have "\<dots> = rev (filter is_digit (rev (dropWhile is_int_space s)))" by (simp only: a)
  also have "\<dots> = filter is_digit (dropWhile is_int_space s)" by (simp add: rev_filter)
  also have "\<dots> = filter is_digit s" by (rule a)
  finally show ?thesis .
qed

lemma py_int_too_many_digits:
  assumes "int_max_str_digits < int (length (filter is_digit s))"
  shows "py_int s = Inl ValueError"
proof -
  define t where "t = rev (dropWhile is_int_space (rev (dropWhile is_int_space s)))"
  have d: "filter is_digit t = filter is_digit s" unfolding t_def by (rule py_int_digits_strip)
  have tl: "filter is_digit (tl t) = filter is_digit t" if "startswith t ''-'' \<or> startswith t ''+''"
    using that by (cases t) (auto simp add: startswith_def is_digit_def)
  show ?thesis
    using assms d tl unfolding py_int_def t_def [symmetric] Let_def
    by (auto simp add: Let_def)
qed















section \<open>Evaluations on the repository of the test fixture\<close>

text \<open>The tests build a repository with \<^verbatim>\<open>simple.py\<close>, \<^verbatim>\<open>complex.py\<close>, \<^verbatim>\<open>main.py\<close> and
  \<^verbatim>\<open>utils/helpers.py\<close>, committed by one author, with a second commit that touches
  \<^verbatim>\<open>simple.py\<close> only. The functions are evaluated on lines and git outputs of that shape.\<close>

lemma str_strip_examples:
  "map str_strip [CHR 0x09 # ''x = 1'' @ [CHR 0x0D], [CHR 0x09, CHR 0x20], '' # a '', [CHR 0x1C, CHR ''5'']]
     = [''x = 1'', [], ''# a'', ''5'']"
  by code_simp

lemma py_int_examples:
  "py_int ''2'' = Inr 2
   \<and> py_int ''1700000200'' = Inr 1700000200
   \<and> py_int ''\<newline> 12_3 '' = Inr 123
   \<and> py_int ''-7'' = Inr (- 7)
   \<and> py_int ''+7'' = Inr 7
   \<and> py_int [CHR 0x85, CHR ''5''] = Inr 5
   \<and> py_int [CHR 0x1C, CHR ''5''] = Inl ValueError
   \<and> py_int ''-'' = Inl ValueError
   \<and> py_int ''1__2'' = Inl ValueError
   \<and> py_int ''_1'' = Inl ValueError
   \<and> py_int ''1 2'' = Inl ValueError
   \<and> py_int '''' = Inl ValueError"
  by code_simp

lemma path_suffix_examples:
  "map path_suffix [''a/b/c.py'', ''.bashrc'', ''a.b/c'', ''x.tar.gz'', ''dir/file.'', ''Makefile'']
     = [''.py'', [], [], ''.gz'', [], []]"
  by code_simp

lemma analyze_file_language_examples:
  "map (\<lambda>p. map_option fa_language
          (analyze_file (\<lambda>q. if q = ''gone.py'' then Missing
                              else if q = ''binary.py'' then Unreadable else Content ''x'') p))
     [''main.py'', ''app.js'', ''app.ts'', ''app.jsx'', ''app.tsx'', ''Main.java'', ''main.go'', ''lib.rs'',
      ''a.c'', ''a.cpp'', ''a.h'', ''a.hpp'', ''README.md'', ''gone.py'', ''binary.py'', ''Makefile'',
      ''.py'', ''a.PY'']
   = [Some ''python'', Some ''javascript'', Some ''typescript'', Some ''javascript'',
      Some ''typescript'', Some ''java'', Some ''go'', Some ''rust'', Some ''c'', Some ''cpp'', Some ''c'',
      Some ''cpp'', None, None, None, None, None, None]"
  by code_simp

lemma extract_python_symbols_example:
  "extract_python_symbols
     [''class DataProcessor:'', ''    def __init__(self, data):'', ''        self.data = data'', [],
      ''    def process(self, mode=0):'', ''def hello(name: str) -> str:'', ''class _Hidden(Base):'']
     ''complex.py''
   = [\<lparr>sym_name = ''DataProcessor'', sym_type = ''class'', sym_file_path = ''complex.py'',
        sym_line_start = 1, sym_line_end = 1, sym_docstring = None, sym_complexity = 0,
        sym_is_public = True\<rparr>,
      \<lparr>sym_name = ''__init__'', sym_type = ''method'', sym_file_path = ''complex.py'',
        sym_line_start = 2, sym_line_end = 2, sym_docstring = None, sym_complexity = 0,
        sym_is_public = False\<rparr>,
      \<lparr>sym_name = ''process'', sym_type = ''method'', sym_file_path = ''complex.py'',
        sym_line_start = 5, sym_line_end = 5, sym_docstring = None, sym_complexity = 0,
        sym_is_public = True\<rparr>,
      \<lparr>sym_name = ''hello'', sym_type = ''function'', sym_file_path = ''complex.py'',
        sym_line_start = 6, sym_line_end = 6, sym_docstring = None, sym_complexity = 0,
        sym_is_public = True\<rparr>,
      \<lparr>sym_name = ''_Hidden'', sym_type = ''class'', sym_file_path = ''complex.py'',
        sym_line_start = 7, sym_line_end = 7, sym_docstring = None, sym_complexity = 0,
        sym_is_public = False\<rparr>]"
  by code_simp

lemma extract_js_symbols_example:
  "extract_js_symbols
     [''class Store extends Base {'', ''export function render(a) {'',
      ''const add = (a, b) => a + b;'', ''let total = 0;'', ''function () {}'']
     ''app.js''
   = [\<lparr>sym_name = ''Store  Base'', sym_type = ''class'', sym_file_path = ''app.js'',
        sym_line_start = 1, sym_line_end = 1, sym_docstring = None, sym_complexity = 0,
        sym_is_public = True\<rparr>,
      \<lparr>sym_name = ''render'', sym_type = ''function'', sym_file_path = ''app.js'',
        sym_line_start = 2, sym_line_end = 2, sym_docstring = None, sym_complexity = 0,
        sym_is_public = True\<rparr>,
      \<lparr>sym_name = ''add'', sym_type = ''function'', sym_file_path = ''app.js'',
        sym_line_start = 3, sym_line_end = 3, sym_docstring = None, sym_complexity = 0,
        sym_is_public = True\<rparr>]"
  by code_simp

lemma extract_imports_simple_python_example:
  "extract_imports_simple
     ''from simple import hello\<newline>from complex import DataProcessor\<newline>import os, sys\<newline>import numpy as np\<newline>def main():''
     ''python''
   = [''simple'', ''complex'', ''os'', ''numpy'']"
  by code_simp

lemma extract_imports_simple_js_example:
  "extract_imports_simple
     (''import x from '' @ [CHR 0x27] @ ''./utils/helpers'' @ [CHR 0x27] @ '';\<newline>import y;\<newline>const z = 1'')
     ''typescript''
   = [''./utils/helpers'']"
  by code_simp

lemma analyze_file_example:
  "analyze_file
     (\<lambda>p. if p = ''main.py''
          then Content ''from simple import hello\<newline>\<newline># entry\<newline>def main():\<newline>    print(hello(1))\<newline>''
          else Missing)
     ''main.py''
   = Some \<lparr>fa_file_path = ''main.py'', fa_language = ''python'',
        fa_symbols = [\<lparr>sym_name = ''main'', sym_type = ''function'', sym_file_path = ''main.py'',
                       sym_line_start = 4, sym_line_end = 4, sym_docstring = None,
                       sym_complexity = 0, sym_is_public = True\<rparr>],
        fa_imports = [''simple''], fa_total_lines = 6, fa_code_lines = 3\<rparr>"
  by code_simp

lemma analyze_file_typescript_example:
  "analyze_file
     (\<lambda>p. Content (''import { h } from '' @ [CHR 0x22] @ ''./utils/helpers'' @ [CHR 0x22]
                      @ '';\<newline>export function render(a) {\<newline>}''))
     ''src/app.ts''
   = Some \<lparr>fa_file_path = ''src/app.ts'', fa_language = ''typescript'',
        fa_symbols = [\<lparr>sym_name = ''render'', sym_type = ''function'', sym_file_path = ''src/app.ts'',
                       sym_line_start = 2, sym_line_end = 2, sym_docstring = None,
                       sym_complexity = 0, sym_is_public = True\<rparr>],
        fa_imports = [''./utils/helpers''], fa_total_lines = 3, fa_code_lines = 3\<rparr>
   \<and> map_option fa_symbols (analyze_file (\<lambda>p. Content ''func main() {}'') ''main.go'') = Some []"
  by code_simp

lemma build_dependency_graph_example:
  "build_dependency_graph
     [(''simple.py'', \<lparr>fa_file_path = ''simple.py'', fa_language = ''python'', fa_symbols = [],
         fa_imports = [], fa_total_lines = 1, fa_code_lines = 1\<rparr>),
      (''complex.py'', \<lparr>fa_file_path = ''complex.py'', fa_language = ''python'', fa_symbols = [],
         fa_imports = [], fa_total_lines = 1, fa_code_lines = 1\<rparr>),
      (''main.py'', \<lparr>fa_file_path = ''main.py'', fa_language = ''python'',
         fa_symbols = [\<lparr>sym_name = ''main'', sym_type = ''function'', sym_file_path = ''main.py'',
                        sym_line_start = 4, sym_line_end = 4, sym_docstring = None,
                        sym_complexity = 0, sym_is_public = True\<rparr>],
         fa_imports = [''simple'', ''complex'', ''os''], fa_total_lines = 1, fa_code_lines = 1\<rparr>),
      (''utils/helpers.py'', \<lparr>fa_file_path = ''utils/helpers.py'', fa_language = ''python'',
         fa_symbols = [], fa_imports = [], fa_total_lines = 1, fa_code_lines = 1\<rparr>)]
     new_analyzer
   = \<lparr>dependency_graph =
        \<lparr>g_nodes = [''simple.py'', ''complex.py'', ''main.py'', ''utils/helpers.py''],
         g_edges = [(''main.py'', ''simple.py''), (''main.py'', ''complex.py'')]\<rparr>,
      modules =
        [(''simple.py'', \<lparr>mi_path = ''simple.py'', mi_imports = [], mi_exported_symbols = [],
            mi_is_entry_point = False, mi_dependency_count = 0, mi_dependent_count = 1\<rparr>),
         (''complex.py'', \<lparr>mi_path = ''complex.py'', mi_imports = [], mi_exported_symbols = [],
            mi_is_entry_point = False, mi_dependency_count = 0, mi_dependent_count = 1\<rparr>),
         (''main.py'', \<lparr>mi_path = ''main.py'', mi_imports = [''simple'', ''complex'', ''os''],
            mi_exported_symbols = [''main''], mi_is_entry_point = False, mi_dependency_count = 2,
            mi_dependent_count = 0\<rparr>),
         (''utils/helpers.py'', \<lparr>mi_path = ''utils/helpers.py'', mi_imports = [],
            mi_exported_symbols = [], mi_is_entry_point = False, mi_dependency_count = 0,
            mi_dependent_count = 0\<rparr>)]\<rparr>"
  by code_simp

lemma identify_leaf_modules_example:
  "map mi_path (identify_leaf_modules
     (build_dependency_graph
        [(''simple.py'', \<lparr>fa_file_path = ''simple.py'', fa_language = ''python'', fa_symbols = [],
            fa_imports = [], fa_total_lines = 1, fa_code_lines = 1\<rparr>),
         (''main.py'', \<lparr>fa_file_path = ''main.py'', fa_language = ''python'', fa_symbols = [],
            fa_imports = [''simple''], fa_total_lines = 1, fa_code_lines = 1\<rparr>),
         (''utils/helpers.py'', \<lparr>fa_file_path = ''utils/helpers.py'', fa_language = ''python'',
            fa_symbols = [], fa_imports = [], fa_total_lines = 1, fa_code_lines = 1\<rparr>)]
        new_analyzer))
   = [''main.py'', ''utils/helpers.py'']"
  by code_simp

lemma get_file_history_example:
  "get_file_history
     (\<lambda>args. if args = [''rev-list'', ''--count'', ''HEAD'', ''--'', ''simple.py'']
               then Completed ''2\<newline>''
             else if args = [''log'', ''--format=%an'', ''--'', ''simple.py'']
               then Completed ''Test User\<newline>Test User\<newline>''
             else if args = [''log'', ''-1'', ''--format=%ct'', ''--'', ''simple.py'']
               then Completed ''1700000200\<newline>''
             else if args = [''log'', ''--diff-filter=A'', ''--format=%ct'', ''--'', ''simple.py'']
               then Completed ''1700000200\<newline>1700000100\<newline>''
             else NonZeroExit)
     (\<lambda>t. Inr t) (0::int) ''simple.py''
   = Inr (Some \<lparr>fh_file_path = ''simple.py'', fh_commit_count = 2, fh_authors = [''Test User''],
            fh_last_modified = 1700000200, fh_creation_date = 1700000100, fh_churn_score = 2\<rparr>)"
  by code_simp

lemma get_file_history_no_history_example:
  "get_file_history (\<lambda>args. Completed ''\<newline>'') (\<lambda>t. Inr t) (0::int) ''untracked.py'' = Inr None"
  by code_simp

lemma get_hotspots_example:
  "map_sum id (map (\<lambda>h. (fh_file_path h, fh_churn_score h)))
     (get_hotspots
        (\<lambda>args. if args = [''ls-files'']
                  then Completed ''complex.py\<newline>main.py\<newline>simple.py\<newline>utils/helpers.py\<newline>''
                else if take 4 args = [''rev-list'', ''--count'', ''HEAD'', ''--'']
                  then Completed (if last args = ''simple.py'' then ''2\<newline>'' else ''1\<newline>'')
                else if take 3 args = [''log'', ''--format=%an'', ''--'']
                  then Completed ''Test User\<newline>''
                else if take 4 args = [''log'', ''-1'', ''--format=%ct'', ''--'']
                  then Completed ''1700000200\<newline>''
                else if take 4 args = [''log'', ''--diff-filter=A'', ''--format=%ct'', ''--'']
                  then Completed ''1700000100\<newline>''
                else NonZeroExit)
        (\<lambda>t. Inr t) (0::int) 3)
   = Inr [(''simple.py'', 2), (''complex.py'', 1), (''main.py'', 1)]"
  by code_simp

lemma get_contributor_stats_example:
  "get_contributor_stats
     (\<lambda>args. if args = [''shortlog'', ''-sne'', ''HEAD'']
               then Completed (''     2'' @ [CHR 0x09] @ ''Test User <test@example.com>\<newline>'')
             else if args = [''log'', ''--author=test@example.com'', ''--name-only'', ''--format='']
               then Completed ''simple.py\<newline>\<newline>complex.py\<newline>main.py\<newline>simple.py\<newline>utils/helpers.py\<newline>''
             else if args = [''log'', ''--author=test@example.com'', ''--numstat'', ''--format='']
               then Completed (''4'' @ [CHR 0x09] @ ''0'' @ [CHR 0x09] @ ''simple.py\<newline>\<newline>'' @
                               ''45'' @ [CHR 0x09] @ ''0'' @ [CHR 0x09] @ ''complex.py\<newline>'' @
                               ''-'' @ [CHR 0x09] @ ''-'' @ [CHR 0x09] @ ''logo.png\<newline>'' @
                               ''-'' @ [CHR 0x09] @ ''3'' @ [CHR 0x09] @ ''gen.bin\<newline>'' @
                               ''7'' @ [CHR 0x09] @ ''x'' @ [CHR 0x09] @ ''odd\<newline>'' @
                               ''x'' @ [CHR 0x09] @ ''9'' @ [CHR 0x09] @ ''odd\<newline>'' @
                               ''15'' @ [CHR 0x09] @ ''2'' @ [CHR 0x09] @ ''simple.py\<newline>'')
             else NonZeroExit)
   = Inr [\<lparr>cs_name = ''Test User'', cs_email = ''test@example.com'', cs_commit_count = 2,
            cs_files_touched = 5, cs_lines_added = 71, cs_lines_deleted = 5\<rparr>]"
  by code_simp

lemma get_recent_activity_example:
  "get_recent_activity
     (\<lambda>args. if args = [''log'', ''--since=14.days.ago'', ''--name-only'', ''--format='']
               then Completed ''simple.py\<newline>\<newline>complex.py\<newline>main.py\<newline>simple.py\<newline>utils/helpers.py\<newline>''
             else NonZeroExit)
     14
   = Inr [(''simple.py'', 2), (''complex.py'', 1), (''main.py'', 1), (''utils/helpers.py'', 1)]"
  by code_simp

lemma is_actively_maintained_example:
  "is_actively_maintained
     (\<lambda>args. if args = [''rev-list'', ''--count'', ''HEAD'', ''--since=90.days.ago'']
               then Completed ''2\<newline>'' else NonZeroExit) = Inr True
   \<and> is_actively_maintained (\<lambda>args. Completed ''0\<newline>'') = Inr False
   \<and> is_actively_maintained (\<lambda>args. NonZeroExit) = Inr False"
  by code_simp

end
